theory Spec2Isabelle
  imports Complex_Main "HOL-Library.Word" "HOL-Library.Sublist"
begin

section \<open>Numbers of the component: IEEE 754 binary64\<close>

text \<open>
  Every \<^verbatim>\<open>number\<close> of \<^verbatim>\<open>BookingForm.tsx\<close> is a JavaScript Number: a binary64
  floating point value. A finite one is carried by the rational it denotes; an
  arithmetic operation computes the exact rational result and rounds it to the nearest
  binary64 value, ties to the even significand (\<open>round64\<close>). The sign of a zero is not
  recorded: no operation of the component tells \<open>+0\<close> from \<open>-0\<close> (they compare equal,
  print alike, and the component only divides by the literals 60 and 100).
\<close>

datatype js_number = NaN | PosInf | NegInf | Fin rat

text \<open>The number of binary digits of a positive integer (0 for the others).\<close>

function bit_length :: "int \<Rightarrow> int" where
  "bit_length n = (if n \<le> 0 then 0 else 1 + bit_length (n div 2))"
  by pat_completeness auto
termination
  by (relation "measure nat") auto

declare bit_length.simps [simp del]

text \<open>
  The binary exponent of a positive rational \<open>a\<close>: the \<open>e\<close> with
  \<open>2\<^sup>e \<le> a < 2\<^sup>e\<^sup>+\<^sup>1\<close>.
\<close>

definition ilog2 :: "rat \<Rightarrow> int" where
  "ilog2 a = (if 1 \<le> a then bit_length \<lfloor>a\<rfloor> - 1
              else - bit_length (\<lceil>1 / a\<rceil> - 1))"

definition round_half_even :: "rat \<Rightarrow> int" where
  "round_half_even x =
     (let f = \<lfloor>x\<rfloor>; d = x - of_int f
      in if d < 1 / 2 then f
         else if 1 / 2 < d then f + 1
         else if even f then f else f + 1)"

text \<open>
  Rounding to binary64: 53 significant bits, least normal exponent \<open>-1022\<close> (below it
  the spacing stays \<open>2\<^sup>-\<^sup>1\<^sup>0\<^sup>7\<^sup>4\<close>: the subnormals), overflow to an infinity from
  \<open>2\<^sup>1\<^sup>0\<^sup>2\<^sup>4\<close> on.
\<close>

definition round64 :: "rat \<Rightarrow> js_number" where
  "round64 q =
     (if q = 0 then Fin 0
      else let a = \<bar>q\<bar>;
               e = max (ilog2 a) (- 1022);
               ulp = 2 powi (e - 52);
               r = of_int (round_half_even (a / ulp)) * ulp
           in if 2 ^ 1024 \<le> r then (if 0 < q then PosInf else NegInf)
              else Fin (if 0 < q then r else - r))"

text \<open>A finite model value is a binary64 value when rounding leaves it alone.\<close>

definition is_double :: "rat \<Rightarrow> bool" where
  "is_double q = (round64 q = Fin q)"

text \<open>The operators \<^verbatim>\<open>-\<close>, \<^verbatim>\<open>*\<close>, \<^verbatim>\<open>/\<close> and \<^verbatim>\<open><\<close> on Numbers.\<close>

fun js_sub :: "js_number \<Rightarrow> js_number \<Rightarrow> js_number" where
  "js_sub NaN _ = NaN"
| "js_sub _ NaN = NaN"
| "js_sub PosInf PosInf = NaN"
| "js_sub NegInf NegInf = NaN"
| "js_sub PosInf _ = PosInf"
| "js_sub NegInf _ = NegInf"
| "js_sub (Fin x) PosInf = NegInf"
| "js_sub (Fin x) NegInf = PosInf"
| "js_sub (Fin x) (Fin y) = round64 (x - y)"

fun js_mul :: "js_number \<Rightarrow> js_number \<Rightarrow> js_number" where
  "js_mul NaN _ = NaN"
| "js_mul _ NaN = NaN"
| "js_mul (Fin x) (Fin y) = round64 (x * y)"
| "js_mul (Fin x) PosInf = (if x = 0 then NaN else if 0 < x then PosInf else NegInf)"
| "js_mul (Fin x) NegInf = (if x = 0 then NaN else if 0 < x then NegInf else PosInf)"
| "js_mul PosInf (Fin y) = (if y = 0 then NaN else if 0 < y then PosInf else NegInf)"
| "js_mul NegInf (Fin y) = (if y = 0 then NaN else if 0 < y then NegInf else PosInf)"
| "js_mul PosInf PosInf = PosInf"
| "js_mul NegInf NegInf = PosInf"
| "js_mul PosInf NegInf = NegInf"
| "js_mul NegInf PosInf = NegInf"

text \<open>
  Division. A zero divisor is read as \<open>+0\<close>; the component divides by 60 and by 100
  only.
\<close>

fun js_div :: "js_number \<Rightarrow> js_number \<Rightarrow> js_number" where
  "js_div NaN _ = NaN"
| "js_div _ NaN = NaN"
| "js_div (Fin x) (Fin y) =
     (if y = 0 then (if x = 0 then NaN else if 0 < x then PosInf else NegInf)
      else round64 (x / y))"
| "js_div (Fin x) _ = Fin 0"
| "js_div PosInf (Fin y) = (if 0 \<le> y then PosInf else NegInf)"
| "js_div NegInf (Fin y) = (if 0 \<le> y then NegInf else PosInf)"
| "js_div _ _ = NaN"

fun js_lt :: "js_number \<Rightarrow> js_number \<Rightarrow> bool" where
  "js_lt NaN _ = False"
| "js_lt _ NaN = False"
| "js_lt (Fin x) (Fin y) = (x < y)"
| "js_lt NegInf NegInf = False"
| "js_lt NegInf _ = True"
| "js_lt _ NegInf = False"
| "js_lt PosInf _ = False"
| "js_lt (Fin x) PosInf = True"

text \<open>\<^verbatim>\<open>Math.abs\<close> and \<^verbatim>\<open>Math.round\<close> (the nearest integer, a tie going up).\<close>

fun Math_abs :: "js_number \<Rightarrow> js_number" where
  "Math_abs NaN = NaN"
| "Math_abs PosInf = PosInf"
| "Math_abs NegInf = PosInf"
| "Math_abs (Fin x) = Fin \<bar>x\<bar>"

fun Math_round :: "js_number \<Rightarrow> js_number" where
  "Math_round (Fin x) = Fin (of_int \<lfloor>x + 1 / 2\<rfloor>)"
| "Math_round n = n"

section \<open>Strings of the component\<close>

text \<open>
  A JavaScript string is a sequence of 16-bit code units. \<open>str\<close> writes an ASCII
  literal of the source as such a sequence.
\<close>

type_synonym js_string = "16 word list"

definition str :: "string \<Rightarrow> js_string" where
  "str s = map (\<lambda>c. of_nat (of_char c)) s"

text \<open>
  \<^verbatim>\<open>String.prototype.trim\<close> removes the white space and line terminator code units
  of ECMAScript from both ends.
\<close>

definition is_white_space :: "16 word \<Rightarrow> bool" where
  "is_white_space c =
     (c \<in> {0x0009, 0x000A, 0x000B, 0x000C, 0x000D, 0x0020, 0x00A0, 0x1680,
            0x2028, 0x2029, 0x202F, 0x205F, 0x3000, 0xFEFF}
      \<or> (0x2000 \<le> c \<and> c \<le> 0x200A))"

definition trim :: "js_string \<Rightarrow> js_string" where
  "trim s = rev (dropWhile is_white_space (rev (dropWhile is_white_space s)))"

definition is_digit :: "16 word \<Rightarrow> bool" where
  "is_digit c = (0x30 \<le> c \<and> c \<le> 0x39)"

text \<open>\<^verbatim>\<open>s.replace(/[^0-9.]/g, '')\<close>: what is left are the digits and the dots.\<close>

definition replace_non_numeric :: "js_string \<Rightarrow> js_string" where
  "replace_non_numeric s = filter (\<lambda>c. is_digit c \<or> c = 0x2E) s"

definition digits_value :: "js_string \<Rightarrow> int" where
  "digits_value ds = foldl (\<lambda>n c. 10 * n + (uint c - 48)) 0 ds"

text \<open>
  \<^verbatim>\<open>parseFloat\<close> on a string of digits and dots, which is all that the replacement
  above hands to it (no white space, sign, exponent or \<^verbatim>\<open>Infinity\<close> can be left). It
  reads the longest prefix that is a decimal literal: digits, then at most one dot with
  its digits; with no digit on either side of the dot there is no literal, and the
  result is \<open>NaN\<close>. The value is the decimal value rounded to binary64 (for a literal
  of more than 20 significant digits ECMAScript lets an engine drop the digits after
  the 20th first; the literals used below are shorter).
\<close>

definition parseFloat :: "js_string \<Rightarrow> js_number" where
  "parseFloat s =
     (let ip = takeWhile is_digit s;
          rest = dropWhile is_digit s;
          fp = (case rest of [] \<Rightarrow> [] | c # cs \<Rightarrow> if c = 0x2E then takeWhile is_digit cs else [])
      in if ip = [] \<and> fp = [] then NaN
         else round64 (of_int (digits_value ip) + of_int (digits_value fp) / 10 ^ length fp))"

section \<open>Data of the component\<close>

text \<open>
  Modelled from the spec: the types \<^verbatim>\<open>Mentor\<close> and \<^verbatim>\<open>BookingFormData\<close> are declared in
  \<^verbatim>\<open>@/types\<close>, which is not among the sources. The fields of the form data are those of
  the booking draft of the specification, under the names the initial state of the
  component gives them; of a mentor the component reads the id, the name and the hourly
  rate (and the availability, for the pickers only). A \<^verbatim>\<open>Date\<close> is its time value in
  milliseconds.
\<close>

type_synonym js_date = int

record mentor =
  m_id :: js_string
  m_name :: js_string
  hourlyRate :: js_number

record booking_form_data =
  mentorId :: js_string
  sessionDate :: js_date
  sessionTime :: js_string
  sessionDuration :: js_number
  topic :: js_string
  goals :: js_string
  paymentAmount :: js_number

text \<open>The object literal \<^verbatim>\<open>sessionDetails\<close> of \<^verbatim>\<open>handleSubmit\<close>.\<close>

record session_details =
  s_id :: js_string
  s_mentorId :: js_string
  s_mentorName :: js_string
  s_date :: js_string
  s_time :: js_string
  s_duration :: js_number
  s_topic :: js_string
  s_goals :: js_string
  s_amount :: js_number
  s_status :: js_string
  s_createdAt :: js_string

text \<open>
  What \<^verbatim>\<open>JSON.parse\<close> reads back from what \<^verbatim>\<open>JSON.stringify\<close> wrote of such a
  record. A string comes back as it was. A finite number is written as the decimal that
  reads back as the same number; \<open>NaN\<close> and the infinities are written as \<^verbatim>\<open>null\<close>.
\<close>

datatype json_number = JSON_null | JSON_number rat

fun JSON_of_number :: "js_number \<Rightarrow> json_number" where
  "JSON_of_number (Fin q) = JSON_number q"
| "JSON_of_number _ = JSON_null"

record stored_session =
  j_id :: js_string
  j_mentorId :: js_string
  j_mentorName :: js_string
  j_date :: js_string
  j_time :: js_string
  j_duration :: json_number
  j_topic :: js_string
  j_goals :: js_string
  j_amount :: json_number
  j_status :: js_string
  j_createdAt :: js_string

definition JSON_of_session :: "session_details \<Rightarrow> stored_session" where
  "JSON_of_session d =
     \<lparr>j_id = s_id d,
      j_mentorId = s_mentorId d,
      j_mentorName = s_mentorName d,
      j_date = s_date d,
      j_time = s_time d,
      j_duration = JSON_of_number (s_duration d),
      j_topic = s_topic d,
      j_goals = s_goals d,
      j_amount = JSON_of_number (s_amount d),
      j_status = s_status d,
      j_createdAt = s_createdAt d\<rparr>"

text \<open>
  What is thrown and caught: an \<^verbatim>\<open>Error\<close> with its message, or some other value.
\<close>

datatype thrown = Error_with js_string | Not_an_Error

text \<open>
  The item \<^verbatim>\<open>bookedSessions\<close> of the local storage, by what the storing statements of
  \<^verbatim>\<open>handleSubmit\<close> meet when they read it: no item (\<^verbatim>\<open>getItem\<close> returns \<^verbatim>\<open>null\<close>, or
  the empty string, and \<^verbatim>\<open>"[]"\<close> is parsed in its place); a text that is not JSON, on
  which \<^verbatim>\<open>JSON.parse\<close> throws (a storage that cannot be read, on which \<^verbatim>\<open>getItem\<close>
  throws, is met in the same way); the JSON of a value that is not an array, on which
  \<^verbatim>\<open>push\<close> throws; or the JSON of an array, which is what this component writes there.
  The elements of the array are taken to be records this component wrote.
\<close>

datatype stored_item =
    No_item
  | Not_JSON thrown
  | Not_an_array thrown
  | Stored_array "stored_session list"

text \<open>
  Modelled from the spec: the notification hook \<^verbatim>\<open>@/hooks/use-toast\<close> is not among the
  sources. A call of \<^verbatim>\<open>toast\<close> surfaces one transient notification; the calls are
  recorded in their order.
\<close>

datatype toast_variant = Default | Destructive

record toast =
  title :: js_string
  description :: js_string
  variant :: toast_variant

text \<open>The state hooks of the component.\<close>

record form_state =
  formData :: booking_form_data
  isSubmitting :: bool
  isDatePickerOpen :: bool
  error :: "js_string option"

text \<open>
  What the component changes outside its own state: the notifications shown, the item
  \<^verbatim>\<open>bookedSessions\<close> of the local storage, the calls of the two callbacks, and the
  calls made to the payment service. The lines written to the console are left out.
\<close>

record world =
  toasts :: "toast list"
  bookedSessions :: stored_item
  onClose_calls :: nat
  onSuccess_calls :: nat
  makePaymentFromCart_calls :: "(booking_form_data \<times> js_string) list"
  getWalletBalance_calls :: nat

text \<open>
  Modelled from the spec: the payment service \<^verbatim>\<open>@/services/paymanService\<close> is not among
  the sources. By the specification paying gives a success flag and a message, and the
  wallet balance is a currency-formatted string. What the service answers during one
  submission is taken as given: an awaited call either resolves or rejects with what
  it throws. The clock and the date formatting of \<^verbatim>\<open>date-fns\<close> are taken as given
  too: the string \<^verbatim>\<open>format\<close> returns for a date, and what it throws on that date if it
  throws (as it does on an invalid date). So is what \<^verbatim>\<open>localStorage.setItem\<close> and the
  two callbacks of the parent throw, if they throw (\<open>None\<close>: the call returns).
\<close>

datatype 'a outcome = Resolves 'a | Rejects thrown

record payment_result =
  success :: bool
  message :: js_string

record env =
  payment :: "payment_result outcome"
  balance :: "js_string outcome"
  Date_now :: int
  toISOString_now :: js_string
  format_yyyy_MM_dd :: "js_date \<Rightarrow> js_string"
  format_throws :: "js_date \<Rightarrow> thrown option"
  setItem_throws :: "thrown option"
  onClose_throws :: "thrown option"
  onSuccess_throws :: "thrown option"

section \<open>The handlers\<close>

text \<open>The effect hook: the payment amount follows the duration and the hourly rate.\<close>

definition update_payment_amount :: "mentor \<Rightarrow> form_state \<Rightarrow> form_state" where
  "update_payment_amount m st =
     (let hourlyRate = hourlyRate m;
          hours = js_div (sessionDuration (formData st)) (Fin 60)
      in st\<lparr>formData := (formData st)\<lparr>paymentAmount :=
           js_div (Math_round (js_mul (js_mul hourlyRate hours) (Fin 100))) (Fin 100)\<rparr>\<rparr>)"

text \<open>
  The initial values of the state hooks (the date is the one of the first render), and
  the mounted component after the first run of the effect hook.
\<close>

definition initial_state :: "mentor \<Rightarrow> js_date \<Rightarrow> form_state" where
  "initial_state m today =
     \<lparr>formData =
        \<lparr>mentorId = m_id m, sessionDate = today, sessionTime = [],
         sessionDuration = Fin 60, topic = [], goals = [], paymentAmount = hourlyRate m\<rparr>,
      isSubmitting = False, isDatePickerOpen = False, error = None\<rparr>"

definition mount :: "mentor \<Rightarrow> js_date \<Rightarrow> form_state" where
  "mount m today = update_payment_amount m (initial_state m today)"

text \<open>
  \<^verbatim>\<open>handleInputChange\<close> is bound to the topic and the goals inputs,
  \<^verbatim>\<open>handleSelectChange\<close> to the time select and, through \<^verbatim>\<open>parseInt\<close>, to the duration
  select, whose items are 30, 60, 90 and 120.
\<close>

datatype input_field = Topic | Goals

definition handleInputChange :: "js_string \<Rightarrow> input_field \<Rightarrow> form_state \<Rightarrow> form_state" where
  "handleInputChange v field st =
     (case field of
        Topic \<Rightarrow> st\<lparr>formData := (formData st)\<lparr>topic := v\<rparr>\<rparr>
      | Goals \<Rightarrow> st\<lparr>formData := (formData st)\<lparr>goals := v\<rparr>\<rparr>)"

datatype select_change = SessionTime js_string | SessionDuration js_number

definition handleSelectChange :: "select_change \<Rightarrow> form_state \<Rightarrow> form_state" where
  "handleSelectChange c st =
     (case c of
        SessionTime v \<Rightarrow> st\<lparr>formData := (formData st)\<lparr>sessionTime := v\<rparr>\<rparr>
      | SessionDuration v \<Rightarrow> st\<lparr>formData := (formData st)\<lparr>sessionDuration := v\<rparr>\<rparr>)"

definition handleDateChange :: "js_date option \<Rightarrow> form_state \<Rightarrow> form_state" where
  "handleDateChange date st =
     (case date of
        None \<Rightarrow> st
      | Some d \<Rightarrow> st\<lparr>formData := (formData st)\<lparr>sessionDate := d\<rparr>, isDatePickerOpen := False\<rparr>)"

definition supported_durations :: "rat set" where
  "supported_durations = {30, 60, 90, 120}"

text \<open>
  The decimal digits of \<^verbatim>\<open>Date.now()\<close>, an integer, in the template literal of the
  identifier.
\<close>

function decimal :: "int \<Rightarrow> js_string" where
  "decimal n = (if n < 0 then 0x2D # decimal (- n)
                else if n < 10 then [of_int (48 + n)]
                else decimal (n div 10) @ [of_int (48 + n mod 10)])"
  by pat_completeness auto
termination
  by (relation "measure (\<lambda>n. if n < 0 then nat (- n) + 1 else nat n)") auto

declare decimal.simps [simp del]

definition call_toast :: "toast \<Rightarrow> world \<Rightarrow> world" where
  "call_toast t w = w\<lparr>toasts := toasts w @ [t]\<rparr>"

definition required_fields_message :: js_string where
  "required_fields_message = str ''Please fill in all required fields''"

definition validation_toast :: toast where
  "validation_toast =
     \<lparr>title = str ''Validation Error'', description = required_fields_message,
      variant = Destructive\<rparr>"

definition payment_successful_toast :: toast where
  "payment_successful_toast =
     \<lparr>title = str ''Payment Successful'',
      description = str ''Your payment has been processed successfully.'',
      variant = Default\<rparr>"

definition payment_failed_toast :: "js_string \<Rightarrow> toast" where
  "payment_failed_toast msg =
     \<lparr>title = str ''Payment Failed'', description = msg, variant = Destructive\<rparr>"

text \<open>The test of the first \<^verbatim>\<open>if\<close> of \<^verbatim>\<open>handleSubmit\<close>; an empty string is falsy.\<close>

definition validation_fails :: "booking_form_data \<Rightarrow> bool" where
  "validation_fails fd = (trim (topic fd) = [] \<or> trim (goals fd) = [] \<or> sessionTime fd = [])"

text \<open>
  The test made when the payment reports a failure, from the string that
  \<^verbatim>\<open>getWalletBalance\<close> resolved to and the payment amount of the form. The literal
  \<^verbatim>\<open>0.01\<close> is the binary64 value nearest to 1/100.
\<close>

definition balance_check :: "js_string \<Rightarrow> js_number \<Rightarrow> bool" where
  "balance_check currentBalance amount =
     (let previousBalance = parseFloat (replace_non_numeric currentBalance);
          expectedBalance = js_sub previousBalance amount
      in js_lt (Math_abs (js_sub previousBalance expectedBalance)) (round64 (1 / 100)))"

text \<open>The object literal built after the payment branches.\<close>

definition sessionDetails :: "env \<Rightarrow> mentor \<Rightarrow> booking_form_data \<Rightarrow> session_details" where
  "sessionDetails e m fd =
     \<lparr>s_id = str ''session-'' @ decimal (Date_now e),
      s_mentorId = m_id m,
      s_mentorName = m_name m,
      s_date = format_yyyy_MM_dd e (sessionDate fd),
      s_time = sessionTime fd,
      s_duration = sessionDuration fd,
      s_topic = topic fd,
      s_goals = goals fd,
      s_amount = paymentAmount fd,
      s_status = str ''confirmed'',
      s_createdAt = toISOString_now e\<rparr>"

definition thrown_message :: "thrown \<Rightarrow> js_string" where
  "thrown_message err =
     (case err of
        Error_with msg \<Rightarrow> msg
      | Not_an_Error \<Rightarrow> str ''An error occurred during payment'')"

definition catch_block :: "thrown \<Rightarrow> form_state \<times> world \<Rightarrow> form_state \<times> world" where
  "catch_block err = (\<lambda>(st, w).
     (st\<lparr>error := Some (thrown_message err)\<rparr>,
      call_toast \<lparr>title = str ''Error'', description = thrown_message err,
                  variant = Destructive\<rparr> w))"

definition finally_block :: "form_state \<times> world \<Rightarrow> form_state \<times> world" where
  "finally_block = (\<lambda>(st, w). (st\<lparr>isSubmitting := False\<rparr>, w))"

text \<open>
  The rest of the \<^verbatim>\<open>try\<close> block: the object literal is built, for which the date is
  formatted; the stored item is read and parsed, the record is pushed, the array is
  written back, and the two callbacks are called. Each of these statements may throw,
  and what it throws ends in the \<^verbatim>\<open>catch\<close> block with the statements before it done.
\<close>

definition store_session ::
  "env \<Rightarrow> mentor \<Rightarrow> booking_form_data \<Rightarrow> form_state \<times> world \<Rightarrow> form_state \<times> world" where
  "store_session e m fd = (\<lambda>(st, w).
     (case format_throws e (sessionDate fd) of
        Some err \<Rightarrow> catch_block err (st, w)
      | None \<Rightarrow>
          (case bookedSessions w of
             Not_JSON err \<Rightarrow> catch_block err (st, w)
           | Not_an_array err \<Rightarrow> catch_block err (st, w)
           | item \<Rightarrow>
               (let existingSessions = (case item of Stored_array xs \<Rightarrow> xs | _ \<Rightarrow> [])
                in case setItem_throws e of
                     Some err \<Rightarrow> catch_block err (st, w)
                   | None \<Rightarrow>
                       (let w1 = w\<lparr>bookedSessions :=
                                    Stored_array (existingSessions @
                                      [JSON_of_session (sessionDetails e m fd)])\<rparr>;
                            w2 = w1\<lparr>onClose_calls := onClose_calls w1 + 1\<rparr>
                        in case onClose_throws e of
                             Some err \<Rightarrow> catch_block err (st, w2)
                           | None \<Rightarrow>
                               (let w3 = w2\<lparr>onSuccess_calls := onSuccess_calls w2 + 1\<rparr>
                                in case onSuccess_throws e of
                                     Some err \<Rightarrow> catch_block err (st, w3)
                                   | None \<Rightarrow> (st, w3)))))))"

text \<open>
  \<^verbatim>\<open>handleSubmit\<close>. The form data is the one of the render the handler closes over;
  the handler does not change it.
\<close>

definition handleSubmit :: "env \<Rightarrow> mentor \<Rightarrow> form_state \<times> world \<Rightarrow> form_state \<times> world" where
  "handleSubmit e m = (\<lambda>(st0, w0).
     (let fd = formData st0;
          st = st0\<lparr>isSubmitting := True, error := None\<rparr>
      in if validation_fails fd
         then (st\<lparr>error := Some required_fields_message, isSubmitting := False\<rparr>,
               call_toast validation_toast w0)
         else finally_block
           (let w = w0\<lparr>makePaymentFromCart_calls :=
                         makePaymentFromCart_calls w0 @ [(fd, m_name m)]\<rparr>
            in case payment e of
                 Rejects err \<Rightarrow> catch_block err (st, w)
               | Resolves paymentResult \<Rightarrow>
                   if \<not> success paymentResult
                   then (let w' = w\<lparr>getWalletBalance_calls := getWalletBalance_calls w + 1\<rparr>
                         in case balance e of
                              Rejects err \<Rightarrow> catch_block err (st, w')
                            | Resolves currentBalance \<Rightarrow>
                                if balance_check currentBalance (paymentAmount fd)
                                then store_session e m fd
                                       (st, call_toast payment_successful_toast w')
                                else (st\<lparr>error := Some (message paymentResult)\<rparr>,
                                      call_toast (payment_failed_toast (message paymentResult)) w'))
                   else store_session e m fd (st, call_toast payment_successful_toast w))))"

text \<open>
  One thing that happens to the mounted component, and what it does to state and world.
  The effect hook runs again when a selection has changed the duration.
\<close>

datatype event =
    InputChange js_string input_field
  | SelectChange select_change
  | DateChange "js_date option"
  | Submit env

definition step :: "mentor \<Rightarrow> event \<Rightarrow> form_state \<times> world \<Rightarrow> form_state \<times> world" where
  "step m ev = (\<lambda>(st, w).
     (case ev of
        InputChange v field \<Rightarrow> (handleInputChange v field st, w)
      | SelectChange c \<Rightarrow>
          (let st' = handleSelectChange c st
           in if sessionDuration (formData st') = sessionDuration (formData st) then st'
              else update_payment_amount m st', w)
      | DateChange d \<Rightarrow> (handleDateChange d st, w)
      | Submit e \<Rightarrow> handleSubmit e m (st, w)))"

text \<open>
  The stored list (empty while there is no item or no array in it), and whether the
  statements from the object literal to the writing of the item return: the date is
  formatted, the stored item is read as an array (or there is none), and the array with
  the record pushed is written back.
\<close>

definition stored_list :: "world \<Rightarrow> stored_session list" where
  "stored_list w = (case bookedSessions w of Stored_array xs \<Rightarrow> xs | _ \<Rightarrow> [])"

definition storing_returns :: "env \<Rightarrow> booking_form_data \<Rightarrow> world \<Rightarrow> bool" where
  "storing_returns e fd w =
     (format_throws e (sessionDate fd) = None
      \<and> (case bookedSessions w of No_item \<Rightarrow> True | Stored_array xs \<Rightarrow> True | _ \<Rightarrow> False)
      \<and> setItem_throws e = None)"

text \<open>A run of the component: the events one after the other.\<close>

fun run :: "mentor \<Rightarrow> event list \<Rightarrow> form_state \<times> world \<Rightarrow> form_state \<times> world" where
  "run m [] s = s"
| "run m (ev # evs) s = run m evs (step m ev s)"

section \<open>The balance test, as the specification words it\<close>

text \<open>
  The specification (4.1) compares the wallet balance before and after the attempt: the
  expected balance is the previous balance, the one from before the attempt, minus the
  payment amount, and the payment counts as made when the expected balance and the
  balance fetched after the reported failure differ by less than 0.01.
\<close>

definition reconciliation_as_specified :: "js_number \<Rightarrow> js_string \<Rightarrow> js_number \<Rightarrow> bool" where
  "reconciliation_as_specified balanceBefore currentBalance amount =
     (let expectedBalance = js_sub balanceBefore amount;
          actualBalance = parseFloat (replace_non_numeric currentBalance)
      in js_lt (Math_abs (js_sub expectedBalance actualBalance)) (round64 (1 / 100)))"

section \<open>Rounding to two decimals, as the specification words it\<close>

text \<open>
  The specification gives the payment amount as the hourly rate times the duration over
  60, rounded to 2 decimal places: the nearest multiple of 1/100 (a tie, as in
  \<^verbatim>\<open>Math.round\<close>, going up). This is the exact, decimal rounding; the value a Number
  can hold of it is its \<open>round64\<close>.
\<close>

definition round_2_decimals :: "rat \<Rightarrow> rat" where
  "round_2_decimals x = of_int \<lfloor>x * 100 + 1 / 2\<rfloor> / 100"

section \<open>Concrete inputs\<close>

text \<open>A mentor, a filled form and an empty world, used to run the handlers.\<close>

definition example_mentor :: mentor where
  "example_mentor = \<lparr>m_id = str ''m-7'', m_name = str ''Ada'', hourlyRate = Fin 100\<rparr>"

definition example_form :: booking_form_data where
  "example_form =
     \<lparr>mentorId = str ''m-7'', sessionDate = 1700000000000, sessionTime = str ''10:00'',
      sessionDuration = Fin 60, topic = str ''Isabelle'', goals = str ''Learn Isar'',
      paymentAmount = Fin 100\<rparr>"

definition example_state :: form_state where
  "example_state =
     \<lparr>formData = example_form, isSubmitting = False, isDatePickerOpen = False, error = None\<rparr>"

definition example_world :: world where
  "example_world =
     \<lparr>toasts = [], bookedSessions = No_item, onClose_calls = 0, onSuccess_calls = 0,
      makePaymentFromCart_calls = [], getWalletBalance_calls = 0\<rparr>"

definition example_env :: "payment_result outcome \<Rightarrow> js_string outcome \<Rightarrow> env" where
  "example_env p b =
     \<lparr>payment = p, balance = b, Date_now = 1700000000000,
      toISOString_now = str ''2023-11-14T22:13:20.000Z'',
      format_yyyy_MM_dd = (\<lambda>d. str ''2023-11-14''), format_throws = (\<lambda>d. None),
      setItem_throws = None, onClose_throws = None, onSuccess_throws = None\<rparr>"

section \<open>Properties of the rounding\<close>

lemma bit_length_bounds:
  "0 < n \<Longrightarrow> 1 \<le> bit_length n \<and> 2 ^ nat (bit_length n - 1) \<le> n \<and> n < 2 ^ nat (bit_length n)"
proof (induction n rule: bit_length.induct)
  case (1 n)
  show ?case
  proof (cases "n div 2 = 0")
    case True
    with "1.prems" have n1: "n = 1" by presburger
    have "bit_length 1 = 1"
      by (simp add: bit_length.simps)
    with n1 show ?thesis by simp
  next
    case False
    with "1.prems" have pos: "0 < n div 2" by presburger
    from "1.prems" have notle: "\<not> n \<le> 0" by simp
    note IH = "1.IH"[OF notle pos]
    have bl: "bit_length n = 1 + bit_length (n div 2)"
      using notle by (subst bit_length.simps) simp
    from IH have k1: "1 \<le> bit_length (n div 2)" by simp
    have e1: "nat (bit_length n - 1) = Suc (nat (bit_length (n div 2) - 1))"
      using k1 bl by simp
    have e2: "nat (bit_length n) = Suc (nat (bit_length (n div 2)))"
      using k1 bl by simp
    from IH have lo: "2 ^ nat (bit_length (n div 2) - 1) \<le> n div 2"
      and hi: "n div 2 < 2 ^ nat (bit_length (n div 2))" by simp_all
    have "2 * 2 ^ nat (bit_length (n div 2) - 1) \<le> n" using lo by linarith
    moreover have "n < 2 * 2 ^ nat (bit_length (n div 2))" using hi by linarith
    ultimately show ?thesis using bl k1 e1 e2 by simp
  qed
qed

lemma ilog2_lower: "0 < a \<Longrightarrow> 2 powi (ilog2 a) \<le> a"
proof (cases "1 \<le> a")
  case True
  then have n: "0 < \<lfloor>a\<rfloor>" by simp
  from bit_length_bounds[OF n] have k: "1 \<le> bit_length \<lfloor>a\<rfloor>"
    and lo: "2 ^ nat (bit_length \<lfloor>a\<rfloor> - 1) \<le> \<lfloor>a\<rfloor>" by simp_all
  have "2 powi (ilog2 a) = (2::rat) ^ nat (bit_length \<lfloor>a\<rfloor> - 1)"
    using True k by (simp add: ilog2_def power_int_def)
  also have "\<dots> = of_int (2 ^ nat (bit_length \<lfloor>a\<rfloor> - 1))" by simp
  also have "\<dots> \<le> of_int \<lfloor>a\<rfloor>" using lo by (simp only: of_int_le_iff)
  also have "\<dots> \<le> a" by simp
  finally show ?thesis .
next
  case False
  assume pos: "0 < a"
  from False pos have x: "1 < 1 / a" by simp
  define m where "m = \<lceil>1 / a\<rceil>"
  have m2: "0 < m - 1" using x unfolding m_def by linarith
  from bit_length_bounds[OF m2] have k: "1 \<le> bit_length (m - 1)"
    and hi: "m - 1 < 2 ^ nat (bit_length (m - 1))" by simp_all
  have "m \<le> 2 ^ nat (bit_length (m - 1))" using hi by simp
  then have "(of_int m :: rat) \<le> of_int (2 ^ nat (bit_length (m - 1)))"
    by (simp only: of_int_le_iff)
  then have "(of_int m :: rat) \<le> 2 ^ nat (bit_length (m - 1))" by simp
  moreover have "1 / a \<le> of_int m" unfolding m_def by simp
  ultimately have "1 / a \<le> 2 ^ nat (bit_length (m - 1))" by linarith
  then have "1 / 2 ^ nat (bit_length (m - 1)) \<le> a"
    using pos by (simp add: field_simps)
  moreover have "2 powi (ilog2 a) = 1 / (2::rat) ^ nat (bit_length (m - 1))"
    using False k by (simp add: ilog2_def power_int_def m_def field_simps)
  ultimately show ?thesis by simp
qed

lemma round_half_even_error: "\<bar>of_int (round_half_even x) - x\<bar> \<le> 1 / 2"
proof -
  have "of_int \<lfloor>x\<rfloor> \<le> x" "x < of_int \<lfloor>x\<rfloor> + 1" by linarith+
  then show ?thesis
    by (auto simp: round_half_even_def Let_def)
qed

lemma round64_error:
  assumes lt: "\<bar>q\<bar> < 2 powi (k + 1)" and k: "- 1022 \<le> k" "k \<le> 1022"
  shows "\<exists>r. round64 q = Fin r \<and> \<bar>r - q\<bar> \<le> 2 powi (k - 53)"
proof (cases "q = 0")
  case True
  then show ?thesis by (simp add: round64_def)
next
  case False
  define a where "a = \<bar>q\<bar>"
  define e where "e = max (ilog2 a) (- 1022)"
  define ulp :: rat where "ulp = 2 powi (e - 52)"
  define r where "r = of_int (round_half_even (a / ulp)) * ulp"
  have apos: "0 < a" using False by (simp add: a_def)
  have "2 powi (ilog2 a) \<le> a" by (rule ilog2_lower[OF apos])
  also have "a < 2 powi (k + 1)" using lt by (simp add: a_def)
  finally have "(2::rat) powi (ilog2 a) < 2 powi (k + 1)" .
  have "ilog2 a < k + 1"
  proof (rule ccontr)
    assume "\<not> ilog2 a < k + 1"
    then have "k + 1 \<le> ilog2 a" by simp
    then have "(2::rat) powi (k + 1) \<le> 2 powi (ilog2 a)"
      by (intro power_int_increasing) auto
    with \<open>(2::rat) powi (ilog2 a) < 2 powi (k + 1)\<close> show False by simp
  qed
  then have ek: "e \<le> k" using k by (simp add: e_def)
  have ulp_pos: "0 < ulp" by (simp add: ulp_def)
  have ulp_le: "ulp \<le> 2 powi (k - 52)"
    unfolding ulp_def using ek by (intro power_int_increasing) auto
  have "r - a = (of_int (round_half_even (a / ulp)) - a / ulp) * ulp"
    using ulp_pos by (simp add: r_def left_diff_distrib)
  then have "\<bar>r - a\<bar> = \<bar>of_int (round_half_even (a / ulp)) - a / ulp\<bar> * ulp"
    using ulp_pos by (simp add: abs_mult)
  also have "\<dots> \<le> 1 / 2 * ulp"
    using round_half_even_error[of "a / ulp"] ulp_pos by (intro mult_right_mono) auto
  also have "\<dots> \<le> 1 / 2 * 2 powi (k - 52)" using ulp_le by simp
  also have "\<dots> = 2 powi (k - 53)"
    by (simp add: power_int_diff)
  finally have err: "\<bar>r - a\<bar> \<le> 2 powi (k - 53)" .
  have "(2::rat) powi (k - 53) \<le> 2 powi (k + 1)"
    by (intro power_int_increasing) auto
  with err lt have "r < 2 * 2 powi (k + 1)" by (simp add: a_def)
  also have "\<dots> = 2 powi (k + 2)" by (simp add: power_int_add)
  also have "\<dots> \<le> 2 powi 1024" using k by (intro power_int_increasing) auto
  finally have small: "\<not> 2 ^ 1024 \<le> r" by simp
  have eq: "round64 q = Fin (if 0 < q then r else - r)"
    using False small
    unfolding round64_def Let_def r_def ulp_def e_def a_def by simp
  have "\<bar>(if 0 < q then r else - r) - q\<bar> = \<bar>r - a\<bar>"
    using False by (auto simp: a_def)
  with err eq show ?thesis by simp
qed

lemma round_half_even_of_int: "round_half_even (of_int k) = k"
  by (simp add: round_half_even_def Let_def)

lemma round64_half_int:
  assumes "\<bar>n\<bar> \<le> 2 ^ 52"
  shows "round64 (of_int n / 2) = Fin (of_int n / 2)"
proof (cases "n = 0")
  case True
  then show ?thesis by (simp add: round64_def)
next
  case False
  define q :: rat where "q = of_int n / 2"
  define a where "a = \<bar>q\<bar>"
  define e where "e = max (ilog2 a) (- 1022)"
  define j where "j = nat (52 - e)"
  have qn: "q \<noteq> 0" using False by (simp add: q_def)
  have apos: "0 < a" using qn by (simp add: a_def)
  have a_eq: "a = of_int \<bar>n\<bar> / 2" by (simp add: a_def q_def)
  have "of_int \<bar>n\<bar> \<le> (of_int (2 ^ 52) :: rat)" using assms by (simp only: of_int_le_iff)
  then have a_le: "a \<le> 2 ^ 51" by (simp add: a_eq)
  have "2 powi (ilog2 a) \<le> a" by (rule ilog2_lower[OF apos])
  also have "a < 2 powi 52" using a_le by simp
  finally have lt: "(2::rat) powi (ilog2 a) < 2 powi 52" .
  have "ilog2 a < 52"
  proof (rule ccontr)
    assume "\<not> ilog2 a < 52"
    then have "(2::rat) powi 52 \<le> 2 powi (ilog2 a)"
      by (intro power_int_increasing) auto
    with lt show False by simp
  qed
  then have e: "e \<le> 51" by (simp add: e_def)
  then have j1: "1 \<le> j" by (simp add: j_def)
  have ulp: "(2::rat) powi (e - 52) = 1 / 2 ^ j"
    using e by (simp add: power_int_def j_def field_simps)
  have pj: "(2::rat) ^ j = 2 * 2 ^ (j - 1)" using j1 by (cases j) simp_all
  define K where "K = \<bar>n\<bar> * 2 ^ (j - 1)"
  have "a / (1 / 2 ^ j) = a * 2 ^ j" by simp
  also have "\<dots> = of_int \<bar>n\<bar> / 2 * (2 * 2 ^ (j - 1))" by (simp only: a_eq pj)
  also have "\<dots> = of_int K" by (simp add: K_def)
  finally have ak: "a / (1 / 2 ^ j) = of_int K" .
  then have A: "rat_of_int K * (1 / 2 ^ j) = a"
    by (simp add: field_simps)
  have "rat_of_int (round_half_even (a / (1 / 2 ^ j))) * (1 / 2 ^ j)
      = rat_of_int K * (1 / 2 ^ j)"
    by (simp only: ak round_half_even_of_int)
  then have "rat_of_int (round_half_even (a / (1 / 2 ^ j))) * (1 / 2 ^ j) = a"
    by (simp only: A)
  then have r: "of_int (round_half_even (a / 2 powi (e - 52))) * 2 powi (e - 52) = a"
    by (simp only: ulp)
  have small: "\<not> 2 ^ 1024 \<le> a" using a_le by simp
  have "round64 q = Fin (if 0 < q then a else - a)"
    using qn small r unfolding round64_def Let_def a_def[symmetric] e_def[symmetric]
    by simp
  also have "(if 0 < q then a else - a) = q" using qn by (auto simp: a_def)
  finally show ?thesis by (simp add: q_def)
qed

lemma round64_not_NaN: "round64 q \<noteq> NaN"
  by (simp add: round64_def Let_def)

lemma Math_abs_round64_minus: "Math_abs (round64 (- q)) = Math_abs (round64 q)"
  by (cases "0 < q") (auto simp: round64_def Let_def)

lemma Math_abs_js_sub_commute: "Math_abs (js_sub x y) = Math_abs (js_sub y x)"
proof (cases x; cases y)
  fix a b assume "x = Fin a" "y = Fin b"
  moreover have "Math_abs (round64 (- (b - a))) = Math_abs (round64 (b - a))"
    by (rule Math_abs_round64_minus)
  ultimately show ?thesis by simp
qed simp_all

lemma ilog2_upper: "0 < a \<Longrightarrow> a < 2 powi (ilog2 a + 1)"
proof (cases "1 \<le> a")
  case True
  then have n: "0 < \<lfloor>a\<rfloor>" by simp
  from bit_length_bounds[OF n] have k: "1 \<le> bit_length \<lfloor>a\<rfloor>"
    and hi: "\<lfloor>a\<rfloor> < 2 ^ nat (bit_length \<lfloor>a\<rfloor>)" by simp_all
  from hi have "\<lfloor>a\<rfloor> + 1 \<le> 2 ^ nat (bit_length \<lfloor>a\<rfloor>)" by simp
  then have "rat_of_int (\<lfloor>a\<rfloor> + 1) \<le> rat_of_int (2 ^ nat (bit_length \<lfloor>a\<rfloor>))"
    by (simp only: of_int_le_iff)
  then have "rat_of_int \<lfloor>a\<rfloor> + 1 \<le> 2 ^ nat (bit_length \<lfloor>a\<rfloor>)" by simp
  moreover have "a < rat_of_int \<lfloor>a\<rfloor> + 1" by linarith
  ultimately have "a < 2 ^ nat (bit_length \<lfloor>a\<rfloor>)" by linarith
  moreover have "2 powi (ilog2 a + 1) = (2::rat) ^ nat (bit_length \<lfloor>a\<rfloor>)"
    using True k by (simp add: ilog2_def power_int_def)
  ultimately show ?thesis by simp
next
  case False
  assume pos: "0 < a"
  from False pos have x: "1 < 1 / a" by simp
  define m where "m = \<lceil>1 / a\<rceil>"
  define k where "k = bit_length (m - 1)"
  have m2: "0 < m - 1" using x unfolding m_def by linarith
  from bit_length_bounds[OF m2] have k1: "1 \<le> k"
    and lo: "2 ^ nat (k - 1) \<le> m - 1" by (simp_all add: k_def)
  have "rat_of_int (2 ^ nat (k - 1)) \<le> rat_of_int (m - 1)"
    using lo by (simp only: of_int_le_iff)
  then have "(2::rat) ^ nat (k - 1) \<le> rat_of_int m - 1" by simp
  moreover have "rat_of_int m - 1 < 1 / a" unfolding m_def by linarith
  ultimately have "(2::rat) ^ nat (k - 1) < 1 / a" by linarith
  then have "a * 2 ^ nat (k - 1) < 1" using pos by (simp add: field_simps)
  then have "a < 1 / 2 ^ nat (k - 1)" by (simp add: field_simps)
  moreover have "2 powi (ilog2 a + 1) = 1 / (2::rat) ^ nat (k - 1)"
  proof -
    have "ilog2 a + 1 = - (k - 1)" using False by (simp add: ilog2_def k_def m_def)
    then have "(2::rat) powi (ilog2 a + 1) = 2 powi (- (k - 1))" by simp
    also have "\<dots> = 1 / 2 powi (k - 1)" by (rule power_int_minus_divide)
    also have "\<dots> = 1 / 2 ^ nat (k - 1)" using k1 by (simp add: power_int_def)
    finally show ?thesis .
  qed
  ultimately show ?thesis by simp
qed

lemma round_half_even_mono_int:
  "x \<le> of_int N \<Longrightarrow> round_half_even x \<le> N"
  "of_int N \<le> x \<Longrightarrow> N \<le> round_half_even x"
proof -
  assume "x \<le> of_int N"
  then have "\<lfloor>x\<rfloor> \<le> N" "x < of_int N \<or> x = of_int N" by (auto simp: floor_le_iff)
  then show "round_half_even x \<le> N"
    by (auto simp: round_half_even_def Let_def)
next
  assume "of_int N \<le> x"
  then have "N \<le> \<lfloor>x\<rfloor>" by (simp add: le_floor_iff)
  then show "N \<le> round_half_even x"
    by (auto simp: round_half_even_def Let_def)
qed

lemma round64_overflow:
  assumes "q \<noteq> 0"
  defines "e \<equiv> max (ilog2 \<bar>q\<bar>) (- 1022)"
  defines "m \<equiv> round_half_even (\<bar>q\<bar> / 2 powi (e - 52))"
  shows "(2 ^ 1024 \<le> rat_of_int m * 2 powi (e - 52)) = (1024 \<le> e \<or> (e = 1023 \<and> 2 ^ 53 \<le> m))"
proof -
  define a where "a = \<bar>q\<bar>"
  define ulp :: rat where "ulp = 2 powi (e - 52)"
  have apos: "0 < a" using assms(1) by (simp add: a_def)
  have ulp_pos: "0 < ulp" by (simp add: ulp_def)
  have e_ge: "ilog2 a \<le> e" by (simp add: e_def a_def)
  have "a < 2 powi (ilog2 a + 1)" by (rule ilog2_upper[OF apos])
  also have "\<dots> \<le> 2 powi (e + 1)" using e_ge by (intro power_int_increasing) auto
  also have "\<dots> = 2 ^ 53 * ulp"
    by (simp add: ulp_def power_int_diff power_int_add)
  finally have "a / ulp < 2 ^ 53" using ulp_pos by (simp add: field_simps)
  then have "a / ulp \<le> rat_of_int (2 ^ 53)" by simp
  then have m_le: "m \<le> 2 ^ 53"
    unfolding m_def a_def[symmetric] ulp_def[symmetric] by (rule round_half_even_mono_int(1))
  have r_eq: "rat_of_int m * 2 powi (e - 52) = rat_of_int m * ulp" by (simp add: ulp_def)
  consider (big) "1024 \<le> e" | (top) "e = 1023" | (small) "e \<le> 1022" by linarith
  then show ?thesis
  proof cases
    case big
    then have ee: "e = ilog2 a" by (simp add: e_def a_def)
    have "2 ^ 52 * ulp = 2 powi e" by (simp add: ulp_def power_int_diff)
    also have "\<dots> \<le> a" unfolding ee by (rule ilog2_lower[OF apos])
    finally have "rat_of_int (2 ^ 52) \<le> a / ulp" using ulp_pos by (simp add: field_simps)
    then have "2 ^ 52 \<le> m"
      unfolding m_def a_def[symmetric] ulp_def[symmetric] by (rule round_half_even_mono_int(2))
    then have "rat_of_int (2 ^ 52) \<le> rat_of_int m" by (simp only: of_int_le_iff)
    then have "2 ^ 52 * ulp \<le> rat_of_int m * ulp" using ulp_pos by simp
    moreover have "(2::rat) powi 1024 \<le> 2 powi e" using big by (intro power_int_increasing) auto
    ultimately have "2 ^ 1024 \<le> rat_of_int m * ulp"
      using \<open>2 ^ 52 * ulp = 2 powi e\<close> by simp
    with big show ?thesis by (simp add: r_eq)
  next
    case top
    have u: "ulp = 2 ^ 971" by (simp add: ulp_def top)
    have "(2 ^ 1024 \<le> rat_of_int m * 2 ^ 971) = (rat_of_int (2 ^ 53) \<le> rat_of_int m)"
      by simp
    also have "\<dots> = (2 ^ 53 \<le> m)" by (simp only: of_int_le_iff)
    finally show ?thesis using top by (simp add: r_eq u)
  next
    case small
    have "rat_of_int m \<le> rat_of_int (2 ^ 53)" using m_le by (simp only: of_int_le_iff)
    then have "rat_of_int m * ulp \<le> 2 ^ 53 * ulp" using ulp_pos by simp
    also have "\<dots> = 2 powi (e + 1)" by (simp add: ulp_def power_int_diff power_int_add)
    also have "\<dots> \<le> 2 powi 1023" using small by (intro power_int_increasing) auto
    also have "\<dots> < (2::rat) ^ 1024" by simp
    finally have "\<not> 2 ^ 1024 \<le> rat_of_int m * ulp" by simp
    with small show ?thesis by (simp add: r_eq)
  qed
qed

text \<open>
  For evaluation the overflow test is made on the exponent and the significand, which
  spares the power \<open>2\<^sup>1\<^sup>0\<^sup>2\<^sup>4\<close>.
\<close>

lemma round64_code [code]:
  "round64 q =
     (if q = 0 then Fin 0
      else let a = \<bar>q\<bar>;
               e = max (ilog2 a) (- 1022);
               ulp = 2 powi (e - 52);
               m = round_half_even (a / ulp)
           in if 1024 \<le> e \<or> (e = 1023 \<and> 2 ^ 53 \<le> m)
              then (if 0 < q then PosInf else NegInf)
              else Fin (if 0 < q then of_int m * ulp else - (of_int m * ulp)))"
proof (cases "q = 0")
  case True
  then show ?thesis by (simp add: round64_def)
next
  case False
  from round64_overflow[OF False] False show ?thesis
    unfolding round64_def Let_def by simp
qed

lemma tolerance_value: "round64 (1 / 100) = Fin (5764607523034235 / 576460752303423488)"
  by code_simp

section \<open>Properties of the strings\<close>

lemma trim_empty_iff: "trim s = [] \<longleftrightarrow> (\<forall>c \<in> set s. is_white_space c)"
proof -
  have "trim s = [] \<longleftrightarrow> (\<forall>c \<in> set (dropWhile is_white_space s). is_white_space c)"
    by (simp add: trim_def dropWhile_eq_Nil_conv)
  also have "\<dots> \<longleftrightarrow> dropWhile is_white_space s = []"
  proof
    assume all: "\<forall>c \<in> set (dropWhile is_white_space s). is_white_space c"
    show "dropWhile is_white_space s = []"
    proof (rule ccontr)
      assume ne: "dropWhile is_white_space s \<noteq> []"
      then have "\<not> is_white_space (hd (dropWhile is_white_space s))"
        by (rule hd_dropWhile)
      moreover have "hd (dropWhile is_white_space s) \<in> set (dropWhile is_white_space s)"
        using ne by simp
      ultimately show False using all by blast
    qed
  next
    assume e: "dropWhile is_white_space s = []"
    show "\<forall>c \<in> set (dropWhile is_white_space s). is_white_space c"
      unfolding e by simp
  qed
  also have "\<dots> \<longleftrightarrow> (\<forall>c \<in> set s. is_white_space c)"
    by (simp add: dropWhile_eq_Nil_conv)
  finally show ?thesis .
qed

lemma replace_non_numeric_leaves:
  "c \<in> set (replace_non_numeric s) \<Longrightarrow> is_digit c \<or> c = 0x2E"
  by (simp add: replace_non_numeric_def)

lemma parseFloat_NaN_iff:
  "parseFloat s = NaN \<longleftrightarrow>
     (case s of
        [] \<Rightarrow> True
      | c # cs \<Rightarrow> \<not> is_digit c \<and>
          (c = 0x2E \<longrightarrow> (case cs of [] \<Rightarrow> True | d # _ \<Rightarrow> \<not> is_digit d)))"
  by (cases s; cases "tl s") (auto simp: parseFloat_def Let_def round64_not_NaN split: list.splits)

lemma parseFloat_no_digit:
  assumes "\<forall>c \<in> set s. \<not> is_digit c"
  shows "parseFloat (replace_non_numeric s) = NaN"
proof -
  have "\<forall>c \<in> set (replace_non_numeric s). \<not> is_digit c"
    using assms by (simp add: replace_non_numeric_def)
  then show ?thesis
    by (cases "replace_non_numeric s"; cases "tl (replace_non_numeric s)")
      (auto simp: parseFloat_NaN_iff)
qed

section \<open>Properties of the balance test\<close>

lemma check_difference:
  assumes b: "\<bar>b\<bar> \<le> 2 ^ 40" and a: "\<bar>a\<bar> \<le> 2 ^ 40"
  shows "\<exists>d. Math_abs (js_sub (Fin b) (js_sub (Fin b) (Fin a))) = Fin d
             \<and> \<bar>d - \<bar>a\<bar>\<bar> \<le> 3 / 8192"
proof -
  have "(2::rat) ^ 41 = 2 ^ 40 + 2 ^ 40" by simp
  then have "\<bar>b - a\<bar> \<le> 2 ^ 41" using a b by linarith
  then have "\<bar>b - a\<bar> < 2 powi (41 + 1)" by simp
  from round64_error[OF this] obtain r1
    where r1: "round64 (b - a) = Fin r1" and e1: "\<bar>r1 - (b - a)\<bar> \<le> 2 powi (41 - 53)"
    by auto
  from e1 have "\<bar>r1 - (b - a)\<bar> \<le> 1 / 4096" by (simp add: power_int_minus_divide)
  then have e1': "\<bar>(b - r1) - a\<bar> \<le> 1 / 4096" by linarith
  have "(2::rat) powi (40 + 1) = 2 ^ 40 + 2 ^ 40" by simp
  moreover have "(1::rat) \<le> 2 ^ 40" by simp
  ultimately have "\<bar>b - r1\<bar> < 2 powi (40 + 1)" using e1' a by linarith
  from round64_error[OF this] obtain r2
    where r2: "round64 (b - r1) = Fin r2" and e2: "\<bar>r2 - (b - r1)\<bar> \<le> 2 powi (40 - 53)"
    by auto
  from e2 have e2': "\<bar>r2 - (b - r1)\<bar> \<le> 1 / 8192" by (simp add: power_int_minus_divide)
  have "Math_abs (js_sub (Fin b) (js_sub (Fin b) (Fin a))) = Fin \<bar>r2\<bar>"
    by (simp add: r1 r2)
  moreover have "\<bar>\<bar>r2\<bar> - \<bar>a\<bar>\<bar> \<le> 3 / 8192" using e1' e2' by linarith
  ultimately show ?thesis by blast
qed

lemma balance_check_false:
  assumes p: "parseFloat (replace_non_numeric s) = Fin b"
    and b: "\<bar>b\<bar> \<le> 2 ^ 40" and a: "11 / 1000 \<le> \<bar>a\<bar>" "\<bar>a\<bar> \<le> 2 ^ 40"
  shows "\<not> balance_check s (Fin a)"
proof -
  from check_difference[OF b a(2)] obtain d
    where d: "Math_abs (js_sub (Fin b) (js_sub (Fin b) (Fin a))) = Fin d"
      and e: "\<bar>d - \<bar>a\<bar>\<bar> \<le> 3 / 8192" by blast
  from e a(1) have "\<not> d < 5764607523034235 / 576460752303423488" by linarith
  then show ?thesis
    using d by (simp add: balance_check_def p tolerance_value Let_def)
qed

lemma balance_check_true:
  assumes p: "parseFloat (replace_non_numeric s) = Fin b"
    and b: "\<bar>b\<bar> \<le> 2 ^ 40" and a: "\<bar>a\<bar> \<le> 9 / 1000"
  shows "balance_check s (Fin a)"
proof -
  from a have "\<bar>a\<bar> \<le> 2 ^ 40" by simp
  from check_difference[OF b this] obtain d
    where d: "Math_abs (js_sub (Fin b) (js_sub (Fin b) (Fin a))) = Fin d"
      and e: "\<bar>d - \<bar>a\<bar>\<bar> \<le> 3 / 8192" by blast
  from e a have "d < 5764607523034235 / 576460752303423488" by linarith
  then show ?thesis
    using d by (simp add: balance_check_def p tolerance_value Let_def)
qed

section \<open>The paths of the submit handler\<close>

lemma handleSubmit_blocked:
  assumes "validation_fails (formData st)"
  shows "handleSubmit e m (st, w) =
           (st\<lparr>isSubmitting := False, error := Some required_fields_message\<rparr>,
            w\<lparr>toasts := toasts w @ [validation_toast]\<rparr>)"
  using assms by (simp add: handleSubmit_def call_toast_def Let_def)

lemma store_session_ignores_services:
  "store_session (e\<lparr>payment := p\<rparr>) m fd = store_session e m fd"
  "store_session (e\<lparr>balance := b\<rparr>) m fd = store_session e m fd"
  by (simp_all add: store_session_def sessionDetails_def Let_def fun_eq_iff
      split: stored_item.splits option.splits)

lemma store_session_balance_calls:
  "store_session e m fd (st, w\<lparr>getWalletBalance_calls := n\<rparr>) =
     (fst (store_session e m fd (st, w)),
      (snd (store_session e m fd (st, w)))\<lparr>getWalletBalance_calls := n\<rparr>)"
  by (simp add: store_session_def catch_block_def call_toast_def Let_def
      split: stored_item.splits option.splits)

lemma store_session_usable:
  assumes "storing_returns e fd w"
  shows "bookedSessions (snd (store_session e m fd (st, w))) =
           Stored_array (stored_list w @ [JSON_of_session (sessionDetails e m fd)])"
  using assms
  by (auto simp: storing_returns_def store_session_def catch_block_def call_toast_def
      stored_list_def Let_def split: option.splits stored_item.splits)


lemma store_session_returns:
  assumes "storing_returns e fd w" "onClose_throws e = None" "onSuccess_throws e = None"
  shows "store_session e m fd (st, w) =
           (st, w\<lparr>bookedSessions :=
                    Stored_array (stored_list w @ [JSON_of_session (sessionDetails e m fd)]),
                  onClose_calls := onClose_calls w + 1,
                  onSuccess_calls := onSuccess_calls w + 1\<rparr>)"
  using assms
  by (auto simp: storing_returns_def store_session_def stored_list_def Let_def
      split: stored_item.splits)

lemma store_session_stored_list:
  "stored_list (snd (store_session e m fd (st, w))) = stored_list w
   \<or> stored_list (snd (store_session e m fd (st, w))) =
       stored_list w @ [JSON_of_session (sessionDetails e m fd)]"
  by (simp add: store_session_def catch_block_def call_toast_def stored_list_def Let_def
      split: stored_item.splits option.splits)

lemma store_session_toasts:
  "prefix (toasts w) (toasts (snd (store_session e m fd (st, w))))"
  by (simp add: store_session_def catch_block_def call_toast_def Let_def
      split: stored_item.splits option.splits)


lemma handleSubmit_reported_success:
  assumes "\<not> validation_fails (formData st)" "payment e = Resolves pr" "success pr"
  shows "handleSubmit e m (st, w) =
           finally_block
             (store_session e m (formData st)
                (st\<lparr>isSubmitting := True, error := None\<rparr>,
                 call_toast payment_successful_toast
                   (w\<lparr>makePaymentFromCart_calls :=
                        makePaymentFromCart_calls w @ [(formData st, m_name m)]\<rparr>)))"
  using assms by (simp add: handleSubmit_def Let_def)

lemma handleSubmit_reported_failure:
  assumes "\<not> validation_fails (formData st)" "payment e = Resolves pr" "\<not> success pr"
    "balance e = Resolves s"
  shows "handleSubmit e m (st, w) =
           (if balance_check s (paymentAmount (formData st))
            then finally_block
                   (store_session e m (formData st)
                      (st\<lparr>isSubmitting := True, error := None\<rparr>,
                       call_toast payment_successful_toast
                         (w\<lparr>makePaymentFromCart_calls :=
                              makePaymentFromCart_calls w @ [(formData st, m_name m)],
                            getWalletBalance_calls := getWalletBalance_calls w + 1\<rparr>)))
            else (st\<lparr>isSubmitting := False, error := Some (message pr)\<rparr>,
                  call_toast (payment_failed_toast (message pr))
                    (w\<lparr>makePaymentFromCart_calls :=
                         makePaymentFromCart_calls w @ [(formData st, m_name m)],
                       getWalletBalance_calls := getWalletBalance_calls w + 1\<rparr>)))"
  using assms by (simp add: handleSubmit_def finally_block_def Let_def)

lemma handleSubmit_reconciled_returns:
  assumes "\<not> validation_fails (formData st)" "payment e = Resolves pr" "\<not> success pr"
    "balance e = Resolves s" "balance_check s (paymentAmount (formData st))"
    and "storing_returns e (formData st) w" "onClose_throws e = None" "onSuccess_throws e = None"
  shows "handleSubmit e m (st, w) =
           (st\<lparr>isSubmitting := False, error := None\<rparr>,
            w\<lparr>makePaymentFromCart_calls :=
                 makePaymentFromCart_calls w @ [(formData st, m_name m)],
               getWalletBalance_calls := getWalletBalance_calls w + 1,
               toasts := toasts w @ [payment_successful_toast],
               bookedSessions :=
                 Stored_array (stored_list w @
                   [JSON_of_session (sessionDetails e m (formData st))]),
               onClose_calls := onClose_calls w + 1,
               onSuccess_calls := onSuccess_calls w + 1\<rparr>)"
proof -
  let ?w = "call_toast payment_successful_toast
      (w\<lparr>makePaymentFromCart_calls :=
           makePaymentFromCart_calls w @ [(formData st, m_name m)],
         getWalletBalance_calls := getWalletBalance_calls w + 1\<rparr>)"
  have u: "storing_returns e (formData st) ?w"
    using assms(6) by (simp add: storing_returns_def call_toast_def)
  have l: "stored_list ?w = stored_list w"
    by (simp add: stored_list_def call_toast_def)
  show ?thesis
    unfolding handleSubmit_reported_failure[OF assms(1-4)] if_P[OF assms(5)]
      store_session_returns[OF u assms(7,8)] l
    by (simp add: finally_block_def call_toast_def)
qed

lemma handleSubmit_payment_rejects:
  assumes "\<not> validation_fails (formData st)" "payment e = Rejects err"
  shows "handleSubmit e m (st, w) =
           (st\<lparr>isSubmitting := False, error := Some (thrown_message err)\<rparr>,
            call_toast \<lparr>title = str ''Error'', description = thrown_message err,
                        variant = Destructive\<rparr>
              (w\<lparr>makePaymentFromCart_calls :=
                   makePaymentFromCart_calls w @ [(formData st, m_name m)]\<rparr>))"
  using assms by (simp add: handleSubmit_def finally_block_def catch_block_def Let_def)

lemma handleSubmit_balance_rejects:
  assumes "\<not> validation_fails (formData st)" "payment e = Resolves pr" "\<not> success pr"
    "balance e = Rejects err"
  shows "handleSubmit e m (st, w) =
           (st\<lparr>isSubmitting := False, error := Some (thrown_message err)\<rparr>,
            call_toast \<lparr>title = str ''Error'', description = thrown_message err,
                        variant = Destructive\<rparr>
              (w\<lparr>makePaymentFromCart_calls :=
                   makePaymentFromCart_calls w @ [(formData st, m_name m)],
                 getWalletBalance_calls := getWalletBalance_calls w + 1\<rparr>))"
  using assms by (simp add: handleSubmit_def finally_block_def catch_block_def Let_def)

lemma finally_block_snd: "snd (finally_block s) = snd s"
  by (cases s) (simp add: finally_block_def)


lemma handleSubmit_cases:
  obtains (blocked) "validation_fails (formData st)"
  | (rejected) err where "\<not> validation_fails (formData st)" "payment e = Rejects err"
  | (succeeded) pr where "\<not> validation_fails (formData st)" "payment e = Resolves pr"
      "success pr"
  | (unbalanced) pr err where "\<not> validation_fails (formData st)" "payment e = Resolves pr"
      "\<not> success pr" "balance e = Rejects err"
  | (balanced) pr s where "\<not> validation_fails (formData st)" "payment e = Resolves pr"
      "\<not> success pr" "balance e = Resolves s"
proof (cases "validation_fails (formData st)")
  case True
  then show ?thesis by (rule blocked)
next
  case valid: False
  show ?thesis
  proof (cases "payment e")
    case (Rejects err)
    with valid show ?thesis by (rule rejected)
  next
    case (Resolves pr)
    show ?thesis
    proof (cases "success pr")
      case True
      with valid Resolves show ?thesis by (rule succeeded)
    next
      case failed: False
      show ?thesis
      proof (cases "balance e")
        case (Rejects err)
        with valid Resolves failed show ?thesis by (rule unbalanced)
      next
        case bal: (Resolves s)
        from valid Resolves failed bal show ?thesis by (rule balanced)
      qed
    qed
  qed
qed

lemma stored_list_frame:
  "stored_list (call_toast t w) = stored_list w"
  "stored_list (w\<lparr>makePaymentFromCart_calls := c\<rparr>) = stored_list w"
  "stored_list (w\<lparr>getWalletBalance_calls := n\<rparr>) = stored_list w"
  "stored_list (w\<lparr>makePaymentFromCart_calls := c, getWalletBalance_calls := n\<rparr>) = stored_list w"
  by (simp_all add: stored_list_def call_toast_def)

lemma handleSubmit_stored_list:
  "stored_list (snd (handleSubmit e m (st, w))) = stored_list w
   \<or> stored_list (snd (handleSubmit e m (st, w))) =
       stored_list w @ [JSON_of_session (sessionDetails e m (formData st))]"
proof (cases rule: handleSubmit_cases[where st = st and e = e])
  case blocked
  then show ?thesis by (simp add: handleSubmit_blocked stored_list_def)
next
  case (rejected err)
  then show ?thesis by (simp add: handleSubmit_payment_rejects stored_list_frame)
next
  case (succeeded pr)
  show ?thesis
    unfolding handleSubmit_reported_success[OF succeeded] finally_block_snd
    using store_session_stored_list[of e m "formData st" "st\<lparr>isSubmitting := True, error := None\<rparr>"
        "call_toast payment_successful_toast (w\<lparr>makePaymentFromCart_calls :=
           makePaymentFromCart_calls w @ [(formData st, m_name m)]\<rparr>)"]
    by (simp only: stored_list_frame)
next
  case (unbalanced pr err)
  then show ?thesis by (simp add: handleSubmit_balance_rejects stored_list_frame)
next
  case (balanced pr s)
  show ?thesis
  proof (cases "balance_check s (paymentAmount (formData st))")
    case True
    show ?thesis
      unfolding handleSubmit_reported_failure[OF balanced] if_P[OF True] finally_block_snd
      using store_session_stored_list[of e m "formData st" "st\<lparr>isSubmitting := True, error := None\<rparr>"
        "call_toast payment_successful_toast (w\<lparr>makePaymentFromCart_calls :=
           makePaymentFromCart_calls w @ [(formData st, m_name m)],
           getWalletBalance_calls := getWalletBalance_calls w + 1\<rparr>)"]
      by (simp only: stored_list_frame)
  next
    case False
    then show ?thesis
      by (simp add: handleSubmit_reported_failure[OF balanced] stored_list_frame)
  qed
qed


lemma handleSubmit_balance_irrelevant:
  assumes "balance_check s1 (paymentAmount (formData st)) = balance_check s2 (paymentAmount (formData st))"
  shows "handleSubmit (e\<lparr>balance := Resolves s1\<rparr>) m (st, w) =
         handleSubmit (e\<lparr>balance := Resolves s2\<rparr>) m (st, w)"
proof (cases "validation_fails (formData st)")
  case True
  then show ?thesis by (simp add: handleSubmit_blocked)
next
  case valid: False
  show ?thesis
  proof (cases "payment e")
    case (Rejects err)
    then have "payment (e\<lparr>balance := Resolves s1\<rparr>) = Rejects err"
      "payment (e\<lparr>balance := Resolves s2\<rparr>) = Rejects err" by simp_all
    then show ?thesis by (simp add: handleSubmit_payment_rejects[OF valid])
  next
    case (Resolves pr)
    then have p: "payment (e\<lparr>balance := Resolves s1\<rparr>) = Resolves pr"
      "payment (e\<lparr>balance := Resolves s2\<rparr>) = Resolves pr" by simp_all
    show ?thesis
    proof (cases "success pr")
      case True
      show ?thesis
        by (simp add: handleSubmit_reported_success[OF valid p(1) True]
            handleSubmit_reported_success[OF valid p(2) True] store_session_ignores_services)
    next
      case False
      have b: "balance (e\<lparr>balance := Resolves s1\<rparr>) = Resolves s1"
        "balance (e\<lparr>balance := Resolves s2\<rparr>) = Resolves s2" by simp_all
      show ?thesis
        using assms
        by (simp add: handleSubmit_reported_failure[OF valid p(1) False b(1)]
            handleSubmit_reported_failure[OF valid p(2) False b(2)]
            store_session_ignores_services)
    qed
  qed
qed

lemma step_stored_list:
  "stored_list (snd (step m ev (st, w))) = stored_list w
   \<or> (\<exists>r. stored_list (snd (step m ev (st, w))) = stored_list w @ [r])"
proof (cases ev)
  case (Submit e)
  then show ?thesis using handleSubmit_stored_list[of e m st w] by (auto simp: step_def)
qed (simp_all add: step_def)

lemma run_stored_list: "prefix (stored_list (snd s)) (stored_list (snd (run m evs s)))"
proof (induction evs arbitrary: s)
  case Nil
  then show ?case by simp
next
  case (Cons ev evs)
  obtain st w where s: "s = (st, w)" by (cases s)
  have "prefix (stored_list w) (stored_list (snd (step m ev (st, w))))"
    using step_stored_list[of m ev st w] by auto
  also have "prefix \<dots> (stored_list (snd (run m evs (step m ev (st, w)))))"
    by (rule Cons.IH)
  finally show ?case by (simp add: s)
qed




section \<open>The effect hook\<close>

lemma hours_exact:
  assumes "D \<in> supported_durations"
  shows "js_div (Fin D) (Fin 60) = Fin (D / 60)"
proof -
  have "round64 (1 / 2) = Fin (1 / 2)" "round64 1 = Fin 1" "round64 (3 / 2) = Fin (3 / 2)"
    "round64 2 = Fin 2"
    by code_simp+
  with assms show ?thesis by (auto simp: supported_durations_def)
qed

lemma hours_range:
  assumes "D \<in> supported_durations"
  shows "0 \<le> D / 60 \<and> D / 60 \<le> 2"
  using assms by (auto simp: supported_durations_def)

lemma update_payment_amount_value:
  assumes "hourlyRate m = Fin R" "sessionDuration (formData st) = Fin D" "D \<in> supported_durations"
  shows "paymentAmount (formData (update_payment_amount m st)) =
           js_div (Math_round (js_mul (round64 (R * (D / 60))) (Fin 100))) (Fin 100)"
  using assms hours_exact[OF assms(3)] by (simp add: update_payment_amount_def Let_def)

lemma payment_amount_exact_products:
  assumes "hourlyRate m = Fin R" "sessionDuration (formData st) = Fin D" "D \<in> supported_durations"
    and "round64 (R * (D / 60)) = Fin (R * (D / 60))"
    and "round64 (R * (D / 60) * 100) = Fin (R * (D / 60) * 100)"
  shows "paymentAmount (formData (update_payment_amount m st)) =
           round64 (round_2_decimals (R * (D / 60)))"
  using update_payment_amount_value[OF assms(1-3)] assms(4,5)
  by (simp add: round_2_decimals_def)

lemma payment_amount_near:
  assumes "hourlyRate m = Fin R" "sessionDuration (formData st) = Fin D" "D \<in> supported_durations"
    and R: "\<bar>R\<bar> \<le> 2 ^ 30"
  shows "\<exists>y. \<bar>y - R * (D / 60)\<bar> \<le> 1 / 2 ^ 21
             \<and> paymentAmount (formData (update_payment_amount m st)) =
                 round64 (round_2_decimals y)"
proof -
  define h where "h = D / 60"
  have h: "0 \<le> h" "h \<le> 2" using hours_range[OF assms(3)] by (simp_all add: h_def)
  have "\<bar>R * h\<bar> = \<bar>R\<bar> * h" using h by (simp add: abs_mult)
  also have "\<dots> \<le> 2 ^ 30 * 2" using R h by (intro mult_mono) auto
  finally have "\<bar>R * h\<bar> < 2 powi (31 + 1)" by simp
  from round64_error[OF this] obtain r1
    where r1: "round64 (R * h) = Fin r1" and "\<bar>r1 - R * h\<bar> \<le> 2 powi (31 - 53)"
    by auto
  then have e1: "\<bar>r1 - R * h\<bar> \<le> 1 / 2 ^ 22" by (simp add: power_int_minus_divide)
  have "\<bar>R * h\<bar> \<le> 2 ^ 31" using \<open>\<bar>R * h\<bar> = \<bar>R\<bar> * h\<close> \<open>\<bar>R\<bar> * h \<le> 2 ^ 30 * 2\<close> by simp
  moreover have "\<bar>r1 - R * h\<bar> \<le> 1" using e1 by simp
  ultimately have "\<bar>r1\<bar> \<le> 2 ^ 31 + 1" by linarith
  then have "\<bar>r1 * 100\<bar> \<le> (2 ^ 31 + 1) * 100" by (simp add: abs_mult)
  then have "\<bar>r1 * 100\<bar> < 2 powi (37 + 1)" by simp
  from round64_error[OF this] obtain r2
    where r2: "round64 (r1 * 100) = Fin r2" and "\<bar>r2 - r1 * 100\<bar> \<le> 2 powi (37 - 53)"
    by auto
  then have e2: "\<bar>r2 - r1 * 100\<bar> \<le> 1 / 2 ^ 16" by (simp add: power_int_minus_divide)
  have amount: "paymentAmount (formData (update_payment_amount m st)) =
      round64 (round_2_decimals (r2 / 100))"
    using update_payment_amount_value[OF assms(1-3)] r1 r2
    by (simp add: round_2_decimals_def h_def)
  have "\<bar>r2 / 100 - r1\<bar> \<le> 1 / 2 ^ 16 / 100" using e2 by (simp add: field_simps) 
  then have "\<bar>r2 / 100 - R * h\<bar> \<le> 1 / 2 ^ 16 / 100 + 1 / 2 ^ 22" using e1 by linarith
  then have "\<bar>r2 / 100 - R * (D / 60)\<bar> \<le> 1 / 2 ^ 21" by (simp add: h_def)
  with amount show ?thesis by blast
qed

lemma payment_amount_whole_rate:
  assumes "hourlyRate m = Fin (of_int n)" "sessionDuration (formData st) = Fin D"
    "D \<in> supported_durations" and n: "\<bar>n\<bar> \<le> 2 ^ 40"
  shows "paymentAmount (formData (update_payment_amount m st)) = Fin (of_int n * (D / 60))
         \<and> round_2_decimals (of_int n * (D / 60)) = of_int n * (D / 60)"
proof -
  obtain c :: int where c: "D / 60 = of_int c / 2" "1 \<le> c" "c \<le> 4"
  proof -
    from assms(3) consider "D = 30" | "D = 60" | "D = 90" | "D = 120"
      by (auto simp: supported_durations_def)
    then show ?thesis
    proof cases
      case 1 then show ?thesis using that[of 1] by simp
    next
      case 2 then show ?thesis using that[of 2] by simp
    next
      case 3 then show ?thesis using that[of 3] by simp
    next
      case 4 then show ?thesis using that[of 4] by simp
    qed
  qed
  have "\<bar>n * c\<bar> = \<bar>n\<bar> * c" using c(2) by (simp add: abs_mult)
  also have "\<dots> \<le> 2 ^ 40 * 4" using n c(2,3) by (intro mult_mono) auto
  finally have cn: "\<bar>n * c\<bar> \<le> 2 ^ 40 * 4" .
  have x: "of_int n * (D / 60) = rat_of_int (n * c) / 2" by (simp add: c(1))
  have "round64 (rat_of_int (n * c) / 2) = Fin (rat_of_int (n * c) / 2)"
    using cn by (intro round64_half_int) simp
  then have p1: "round64 (of_int n * (D / 60)) = Fin (of_int n * (D / 60))"
    by (simp only: x)
  have y: "of_int n * (D / 60) * 100 = rat_of_int (n * c * 100) / 2" by (simp add: c(1))
  have "\<bar>n * c * 100\<bar> = \<bar>n * c\<bar> * 100" by (subst abs_mult) simp
  with cn have "\<bar>n * c * 100\<bar> \<le> 2 ^ 40 * 4 * 100" by linarith
  then have "round64 (rat_of_int (n * c * 100) / 2) = Fin (rat_of_int (n * c * 100) / 2)"
    by (intro round64_half_int) simp
  then have p2: "round64 (of_int n * (D / 60) * 100) = Fin (of_int n * (D / 60) * 100)"
    by (simp only: y)
  have "of_int n * (D / 60) * 100 + 1 / 2 = rat_of_int (n * c * 50) + 1 / 2"
    by (simp add: c(1))
  then have "\<lfloor>of_int n * (D / 60) * 100 + 1 / 2\<rfloor> = n * c * 50"
    by (simp only:) linarith
  then have r: "round_2_decimals (of_int n * (D / 60)) = of_int n * (D / 60)"
    by (simp add: round_2_decimals_def c(1))
  have "paymentAmount (formData (update_payment_amount m st)) =
          round64 (round_2_decimals (of_int n * (D / 60)))"
    by (rule payment_amount_exact_products[OF assms(1-3) p1 p2])
  also have "\<dots> = Fin (of_int n * (D / 60))" by (simp only: r p1)
  finally show ?thesis using r by blast
qed

section \<open>The concrete inputs\<close>

lemma example_form_valid: "\<not> validation_fails example_form"
  by (simp add: validation_fails_def example_form_def trim_def str_def is_white_space_def)

lemma example_parse: "parseFloat (replace_non_numeric (str ''$1,000.00'')) = Fin 1000"
  by code_simp

lemma example_check_fails: "\<not> balance_check (str ''$1,000.00'') (Fin 100)"
  by (rule balance_check_false[OF example_parse]) simp_all

lemma example_check_holds: "balance_check (str ''$1,000.00'') (Fin 0)"
  by (rule balance_check_true[OF example_parse]) simp_all

section \<open>The claims\<close>

subsection \<open>The balance test of a reported failure\<close>

text \<open>
  Claim C1. By the claim the expected balance is the previous balance minus the
  payment amount, and the success path is taken exactly when it differs from the fetched
  balance by less than 0.01. The handler has no balance from before the attempt: its
  \<^verbatim>\<open>previousBalance\<close> is parsed from the balance just fetched, so that its test is made
  on the payment amount alone. With 1000 in the wallet before, an amount of 100 (the
  draft filled in for a mentor whose hourly rate is 100 and a session of 60 minutes) and
  \<^verbatim>\<open>$900.00\<close> fetched after a payment that went through and was reported as failed,
  the comparison of the claim holds and the handler takes the failure path; with an
  amount of 0 (the draft of a mentor whose hourly rate is 0) and \<^verbatim>\<open>$400.00\<close> fetched
  the comparison of the claim fails and the handler takes the success path.
\<close>

theorem reconciliation_misses_previous_balance:
  "reconciliation_as_specified (Fin 1000) (str ''$900.00'') (Fin 100)
   \<and> \<not> balance_check (str ''$900.00'') (Fin 100)
   \<and> run example_mentor
        [InputChange (str ''Isabelle'') Topic, InputChange (str ''Learn Isar'') Goals,
         SelectChange (SessionTime (str ''10:00''))]
        (mount example_mentor 1700000000000, example_world)
     = (example_state, example_world)
   \<and> handleSubmit
        (example_env (Resolves \<lparr>success = False, message = str ''Declined''\<rparr>)
           (Resolves (str ''$900.00'')))
        example_mentor (example_state, example_world)
     = (example_state\<lparr>error := Some (str ''Declined'')\<rparr>,
        example_world\<lparr>toasts := [payment_failed_toast (str ''Declined'')],
          makePaymentFromCart_calls := [(example_form, str ''Ada'')],
          getWalletBalance_calls := 1\<rparr>)
   \<and> \<not> reconciliation_as_specified (Fin 1000) (str ''$400.00'') (Fin 0)
   \<and> balance_check (str ''$400.00'') (Fin 0)
   \<and> run (example_mentor\<lparr>hourlyRate := Fin 0\<rparr>)
        [InputChange (str ''Isabelle'') Topic, InputChange (str ''Learn Isar'') Goals,
         SelectChange (SessionTime (str ''10:00''))]
        (mount (example_mentor\<lparr>hourlyRate := Fin 0\<rparr>) 1700000000000, example_world)
     = (example_state\<lparr>formData := example_form\<lparr>paymentAmount := Fin 0\<rparr>\<rparr>, example_world)
   \<and> toasts (snd (handleSubmit
        (example_env (Resolves \<lparr>success = False, message = str ''Declined''\<rparr>)
           (Resolves (str ''$400.00'')))
        (example_mentor\<lparr>hourlyRate := Fin 0\<rparr>)
        (example_state\<lparr>formData := example_form\<lparr>paymentAmount := Fin 0\<rparr>\<rparr>, example_world)))
     = [payment_successful_toast]
   \<and> length (stored_list (snd (handleSubmit
        (example_env (Resolves \<lparr>success = False, message = str ''Declined''\<rparr>)
           (Resolves (str ''$400.00'')))
        (example_mentor\<lparr>hourlyRate := Fin 0\<rparr>)
        (example_state\<lparr>formData := example_form\<lparr>paymentAmount := Fin 0\<rparr>\<rparr>, example_world))))
     = 1"
proof -
  let ?pr = "\<lparr>success = False, message = str ''Declined''\<rparr>"
  let ?e9 = "example_env (Resolves ?pr) (Resolves (str ''$900.00''))"
  let ?e4 = "example_env (Resolves ?pr) (Resolves (str ''$400.00''))"
  let ?st0 = "example_state\<lparr>formData := example_form\<lparr>paymentAmount := Fin 0\<rparr>\<rparr>"
  let ?m0 = "example_mentor\<lparr>hourlyRate := Fin 0\<rparr>"
  have p9: "parseFloat (replace_non_numeric (str ''$900.00'')) = Fin 900" by code_simp
  have p4: "parseFloat (replace_non_numeric (str ''$400.00'')) = Fin 400" by code_simp
  have r: "round64 900 = Fin 900" "round64 1000 = Fin 1000" "round64 600 = Fin 600"
    using round64_half_int[of 1800] round64_half_int[of 2000] round64_half_int[of 1200]
    by simp_all
  have z: "round64 0 = Fin 0" using round64_half_int[of 0] by simp
  have o: "round64 1 = Fin 1" using round64_half_int[of 2] by simp
  have f: "\<lfloor>(1::rat) / 2\<rfloor> = 0" by (rule floor_unique) simp_all
  have mt: "mount ?m0 1700000000000 =
     \<lparr>formData = \<lparr>mentorId = str ''m-7'', sessionDate = 1700000000000, sessionTime = [],
         sessionDuration = Fin 60, topic = [], goals = [], paymentAmount = Fin 0\<rparr>,
      isSubmitting = False, isDatePickerOpen = False, error = None\<rparr>"
    by (simp add: mount_def initial_state_def update_payment_amount_def example_mentor_def
        Let_def z o f)
  have o9: "round64 100 = Fin 100" "round64 10000 = Fin 10000"
    using round64_half_int[of 200] round64_half_int[of 20000] by simp_all
  have f9: "\<lfloor>(20001::rat) / 2\<rfloor> = 10000" by (rule floor_unique) simp_all
  have mt9: "mount example_mentor 1700000000000 =
     \<lparr>formData = \<lparr>mentorId = str ''m-7'', sessionDate = 1700000000000, sessionTime = [],
         sessionDuration = Fin 60, topic = [], goals = [], paymentAmount = Fin 100\<rparr>,
      isSubmitting = False, isDatePickerOpen = False, error = None\<rparr>"
    by (simp add: mount_def initial_state_def update_payment_amount_def example_mentor_def
        Let_def o o9 f9)
  have r9: "run example_mentor
        [InputChange (str ''Isabelle'') Topic, InputChange (str ''Learn Isar'') Goals,
         SelectChange (SessionTime (str ''10:00''))]
        (mount example_mentor 1700000000000, example_world)
     = (example_state, example_world)"
    unfolding mt9
    by (simp add: step_def handleInputChange_def handleSelectChange_def example_state_def
        example_form_def)
  have r4: "run ?m0
        [InputChange (str ''Isabelle'') Topic, InputChange (str ''Learn Isar'') Goals,
         SelectChange (SessionTime (str ''10:00''))]
        (mount ?m0 1700000000000, example_world)
     = (?st0, example_world)"
    unfolding mt
    by (simp add: step_def handleInputChange_def handleSelectChange_def example_state_def
        example_form_def)
  have s9: "reconciliation_as_specified (Fin 1000) (str ''$900.00'') (Fin 100)"
    by (simp add: reconciliation_as_specified_def Let_def p9 r z tolerance_value)
  have c9: "\<not> balance_check (str ''$900.00'') (Fin 100)"
    by (rule balance_check_false[OF p9]) simp_all
  have s4: "\<not> reconciliation_as_specified (Fin 1000) (str ''$400.00'') (Fin 0)"
    by (simp add: reconciliation_as_specified_def Let_def p4 r tolerance_value)
  have c4: "balance_check (str ''$400.00'') (Fin 0)"
    by (rule balance_check_true[OF p4]) simp_all
  have v: "\<not> validation_fails (formData example_state)"
    using example_form_valid by (simp add: example_state_def)
  have v0: "\<not> validation_fails (formData ?st0)"
    using example_form_valid by (simp add: validation_fails_def)
  have n: "\<not> success ?pr" by simp
  have h9: "handleSubmit ?e9 example_mentor (example_state, example_world)
     = (example_state\<lparr>error := Some (str ''Declined'')\<rparr>,
        example_world\<lparr>toasts := [payment_failed_toast (str ''Declined'')],
          makePaymentFromCart_calls := [(example_form, str ''Ada'')],
          getWalletBalance_calls := 1\<rparr>)"
    using c9
    by (subst handleSubmit_reported_failure[OF v _ n, where s = "str ''$900.00''"])
      (simp_all add: example_env_def example_state_def example_form_def call_toast_def
        example_world_def example_mentor_def)
  have u: "storing_returns ?e4 (formData ?st0) (call_toast payment_successful_toast
        (example_world\<lparr>makePaymentFromCart_calls := c, getWalletBalance_calls := k\<rparr>))" for c k
    by (simp add: storing_returns_def example_env_def example_world_def call_toast_def)
  have t: "onClose_throws ?e4 = None" "onSuccess_throws ?e4 = None"
    by (simp_all add: example_env_def)
  have amount0: "paymentAmount (formData ?st0) = Fin 0" by simp
  have h4: "handleSubmit ?e4 ?m0 (?st0, example_world) =
      finally_block (store_session ?e4 ?m0 (formData ?st0)
        (?st0\<lparr>isSubmitting := True, error := None\<rparr>,
         call_toast payment_successful_toast
           (example_world\<lparr>makePaymentFromCart_calls :=
               makePaymentFromCart_calls example_world @ [(formData ?st0, m_name ?m0)],
              getWalletBalance_calls := getWalletBalance_calls example_world + 1\<rparr>)))"
    using c4
    by (subst handleSubmit_reported_failure[OF v0 _ n, where s = "str ''$400.00''"])
      (simp_all only: amount0 if_True, simp_all add: example_env_def)
  have t4: "toasts (snd (handleSubmit ?e4 ?m0 (?st0, example_world)))
      = [payment_successful_toast]"
    unfolding h4 store_session_returns[OF u t]
    by (simp add: finally_block_def call_toast_def example_world_def)
  have l4: "length (stored_list (snd (handleSubmit ?e4 ?m0 (?st0, example_world)))) = 1"
    unfolding h4 store_session_returns[OF u t]
    by (simp add: finally_block_def call_toast_def example_world_def stored_list_def)
  from s9 c9 r9 h9 s4 c4 r4 t4 l4 show ?thesis by blast
qed

text \<open>
  Claim C2 says that the balance test is true for every payment amount and every
  fetched balance. It is not: with a fetched balance of \<^verbatim>\<open>$1,000.00\<close> and a payment
  amount of 100 the test compares 1000 with 900, it fails, and the reported failure is
  shown as a failure.
\<close>

theorem balance_check_is_not_always_true:
  "parseFloat (replace_non_numeric (str ''$1,000.00'')) = Fin 1000
   \<and> \<not> balance_check (str ''$1,000.00'') (Fin 100)
   \<and> handleSubmit
        (example_env (Resolves \<lparr>success = False, message = str ''Declined''\<rparr>)
           (Resolves (str ''$1,000.00'')))
        example_mentor (example_state, example_world)
     = (example_state\<lparr>error := Some (str ''Declined'')\<rparr>,
        example_world\<lparr>toasts := [payment_failed_toast (str ''Declined'')],
          makePaymentFromCart_calls := [(example_form, str ''Ada'')],
          getWalletBalance_calls := 1\<rparr>)"
proof -
  let ?e = "example_env (Resolves \<lparr>success = False, message = str ''Declined''\<rparr>)
         (Resolves (str ''$1,000.00''))"
  have v: "\<not> validation_fails (formData example_state)"
    using example_form_valid by (simp add: example_state_def)
  have p: "payment ?e = Resolves \<lparr>success = False, message = str ''Declined''\<rparr>"
    by (simp add: example_env_def)
  have n: "\<not> success \<lparr>success = False, message = str ''Declined''\<rparr>" by simp
  have b: "balance ?e = Resolves (str ''$1,000.00'')" by (simp add: example_env_def)
  have c: "\<not> balance_check (str ''$1,000.00'') (paymentAmount (formData example_state))"
    using example_check_fails by (simp add: example_state_def example_form_def)
  from handleSubmit_reported_failure[OF v p n b, of example_mentor example_world] c
  have "handleSubmit ?e example_mentor (example_state, example_world)
     = (example_state\<lparr>error := Some (str ''Declined'')\<rparr>,
        example_world\<lparr>toasts := [payment_failed_toast (str ''Declined'')],
          makePaymentFromCart_calls := [(example_form, str ''Ada'')],
          getWalletBalance_calls := 1\<rparr>)"
    by (simp add: call_toast_def example_state_def example_world_def example_mentor_def)
  with example_parse example_check_fails show ?thesis by simp
qed

text \<open>
  Claim C2, amended. The balance test compares the fetched balance with that balance
  minus the payment amount (no balance from before the payment enters it), so it
  follows the amount: for a fetched balance of magnitude up to \<open>2\<^sup>4\<^sup>0\<close> it is false for
  every amount of magnitude from 0.011 to \<open>2\<^sup>4\<^sup>0\<close> (the reported failure is then shown
  as a failure) and true for every amount of magnitude up to 0.009.
\<close>

theorem balance_check_follows_amount:
  assumes "parseFloat (replace_non_numeric s) = Fin b" "\<bar>b\<bar> \<le> 2 ^ 40"
  shows "(11 / 1000 \<le> \<bar>a\<bar> \<and> \<bar>a\<bar> \<le> 2 ^ 40 \<longrightarrow> \<not> balance_check s (Fin a))
         \<and> (\<bar>a\<bar> \<le> 9 / 1000 \<longrightarrow> balance_check s (Fin a))"
  using balance_check_false[OF assms, of a] balance_check_true[OF assms, of a] by blast

theorem balance_check_follows_amount_witness:
  "\<not> balance_check (str ''250.75 USD'') (Fin 75)
   \<and> balance_check (str ''250.75 USD'') (Fin (1 / 256))"
proof -
  have p: "parseFloat (replace_non_numeric (str ''250.75 USD'')) = Fin (1003 / 4)"
    by code_simp
  have b: "\<bar>1003 / 4 :: rat\<bar> \<le> 2 ^ 40" by simp
  from balance_check_follows_amount[OF p b, of 75]
       balance_check_follows_amount[OF p b, of "1 / 256"]
  show ?thesis by simp
qed

text \<open>
  Claim C3. When the payment call reports a failure and the balance test holds, the
  handler does what it does on a reported success: the state it leaves and the world
  it leaves are those of the run in which the payment reports success, but for the one
  call of the balance service. The success notification is shown, the storing
  statements are run, and where they return (the date is formatted, the stored item is
  read and written back) one record with status \<^verbatim>\<open>confirmed\<close> is put at the end of the
  stored list; where moreover the callbacks return, no error is set and nothing else is
  shown.
\<close>

theorem reconciled_failure_takes_success_path:
  assumes "\<not> validation_fails (formData st)" "payment e = Resolves pr" "\<not> success pr"
    "balance e = Resolves s" "balance_check s (paymentAmount (formData st))"
  shows "fst (handleSubmit e m (st, w)) =
           fst (handleSubmit (e\<lparr>payment := Resolves (pr\<lparr>success := True\<rparr>)\<rparr>) m (st, w))
         \<and> snd (handleSubmit e m (st, w)) =
           (snd (handleSubmit (e\<lparr>payment := Resolves (pr\<lparr>success := True\<rparr>)\<rparr>) m (st, w)))
             \<lparr>getWalletBalance_calls := getWalletBalance_calls w + 1\<rparr>
         \<and> prefix (toasts w @ [payment_successful_toast])
              (toasts (snd (handleSubmit e m (st, w))))
         \<and> (storing_returns e (formData st) w \<longrightarrow>
              bookedSessions (snd (handleSubmit e m (st, w))) =
                Stored_array (stored_list w @
                  [JSON_of_session (sessionDetails e m (formData st))])
              \<and> j_status (JSON_of_session (sessionDetails e m (formData st))) =
                  str ''confirmed'')
         \<and> (storing_returns e (formData st) w \<and> onClose_throws e = None \<and> onSuccess_throws e = None \<longrightarrow>
              toasts (snd (handleSubmit e m (st, w))) = toasts w @ [payment_successful_toast]
              \<and> error (fst (handleSubmit e m (st, w))) = None
              \<and> onSuccess_calls (snd (handleSubmit e m (st, w))) = onSuccess_calls w + 1)"
proof -
  let ?e' = "e\<lparr>payment := Resolves (pr\<lparr>success := True\<rparr>)\<rparr>"
  let ?st = "st\<lparr>isSubmitting := True, error := None\<rparr>"
  let ?w1 = "w\<lparr>makePaymentFromCart_calls :=
                 makePaymentFromCart_calls w @ [(formData st, m_name m)]\<rparr>"
  let ?w2 = "call_toast payment_successful_toast
               (?w1\<lparr>getWalletBalance_calls := getWalletBalance_calls w + 1\<rparr>)"
  have p': "payment ?e' = Resolves (pr\<lparr>success := True\<rparr>)" by simp
  have s': "success (pr\<lparr>success := True\<rparr>)" by simp
  have h: "handleSubmit e m (st, w) =
      finally_block (store_session e m (formData st) (?st, ?w2))"
    using assms by (simp add: handleSubmit_reported_failure)
  have h': "handleSubmit ?e' m (st, w) =
      finally_block (store_session e m (formData st)
        (?st, call_toast payment_successful_toast ?w1))"
    by (simp add: handleSubmit_reported_success[OF assms(1) p' s'] store_session_ignores_services)
  have w2: "?w2 = (call_toast payment_successful_toast ?w1)
      \<lparr>getWalletBalance_calls := getWalletBalance_calls w + 1\<rparr>"
    by (simp add: call_toast_def)
  have same: "store_session e m (formData st) (?st, ?w2) =
      (fst (store_session e m (formData st) (?st, call_toast payment_successful_toast ?w1)),
       (snd (store_session e m (formData st) (?st, call_toast payment_successful_toast ?w1)))
         \<lparr>getWalletBalance_calls := getWalletBalance_calls w + 1\<rparr>)"
    unfolding w2 by (rule store_session_balance_calls)
  have c1: "fst (handleSubmit e m (st, w)) = fst (handleSubmit ?e' m (st, w))"
    unfolding h h' same by (simp add: finally_block_def split: prod.splits)
  have c2: "snd (handleSubmit e m (st, w)) =
      (snd (handleSubmit ?e' m (st, w)))\<lparr>getWalletBalance_calls := getWalletBalance_calls w + 1\<rparr>"
    unfolding h h' same by (simp add: finally_block_snd)
  have tw: "toasts ?w2 = toasts w @ [payment_successful_toast]"
    by (simp add: call_toast_def)
  have c3: "prefix (toasts w @ [payment_successful_toast])
      (toasts (snd (handleSubmit e m (st, w))))"
    unfolding h finally_block_snd using store_session_toasts[of ?w2 e m "formData st" ?st]
    by (simp only: tw)
  have u: "storing_returns e (formData st) ?w2 = storing_returns e (formData st) w"
    by (simp add: storing_returns_def call_toast_def)
  have l: "stored_list ?w2 = stored_list w"
    by (simp add: stored_list_def call_toast_def)
  have c4: "storing_returns e (formData st) w \<longrightarrow>
      bookedSessions (snd (handleSubmit e m (st, w))) =
        Stored_array (stored_list w @ [JSON_of_session (sessionDetails e m (formData st))])
      \<and> j_status (JSON_of_session (sessionDetails e m (formData st))) = str ''confirmed''"
  proof
    assume "storing_returns e (formData st) w"
    then have "storing_returns e (formData st) ?w2" by (simp only: u)
    from store_session_usable[OF this, where m = m and st = ?st]
    show "bookedSessions (snd (handleSubmit e m (st, w))) =
        Stored_array (stored_list w @ [JSON_of_session (sessionDetails e m (formData st))])
      \<and> j_status (JSON_of_session (sessionDetails e m (formData st))) = str ''confirmed''"
      unfolding h finally_block_snd l
      by (simp add: JSON_of_session_def sessionDetails_def)
  qed
  have c5: "storing_returns e (formData st) w \<and> onClose_throws e = None \<and> onSuccess_throws e = None \<longrightarrow>
      toasts (snd (handleSubmit e m (st, w))) = toasts w @ [payment_successful_toast]
      \<and> error (fst (handleSubmit e m (st, w))) = None
      \<and> onSuccess_calls (snd (handleSubmit e m (st, w))) = onSuccess_calls w + 1"
  proof
    assume a: "storing_returns e (formData st) w \<and> onClose_throws e = None \<and> onSuccess_throws e = None"
    then have "storing_returns e (formData st) ?w2" by (simp only: u)
    from store_session_returns[OF this, where m = m and st = ?st] a
    show "toasts (snd (handleSubmit e m (st, w))) = toasts w @ [payment_successful_toast]
      \<and> error (fst (handleSubmit e m (st, w))) = None
      \<and> onSuccess_calls (snd (handleSubmit e m (st, w))) = onSuccess_calls w + 1"
      unfolding h by (simp add: finally_block_def call_toast_def)
  qed
  from c1 c2 c3 c4 c5 show ?thesis by blast
qed

theorem reconciled_failure_takes_success_path_witness:
  "toasts (snd (handleSubmit
      (example_env (Resolves \<lparr>success = False, message = str ''Declined''\<rparr>)
         (Resolves (str ''$1,000.00'')))
      example_mentor
      (example_state\<lparr>formData := example_form\<lparr>paymentAmount := Fin 0\<rparr>\<rparr>, example_world)))
   = [payment_successful_toast]
   \<and> error (fst (handleSubmit
      (example_env (Resolves \<lparr>success = False, message = str ''Declined''\<rparr>)
         (Resolves (str ''$1,000.00'')))
      example_mentor
      (example_state\<lparr>formData := example_form\<lparr>paymentAmount := Fin 0\<rparr>\<rparr>, example_world)))
   = None
   \<and> length (stored_list (snd (handleSubmit
      (example_env (Resolves \<lparr>success = False, message = str ''Declined''\<rparr>)
         (Resolves (str ''$1,000.00'')))
      example_mentor
      (example_state\<lparr>formData := example_form\<lparr>paymentAmount := Fin 0\<rparr>\<rparr>, example_world)))) = 1"
proof -
  let ?e = "example_env (Resolves \<lparr>success = False, message = str ''Declined''\<rparr>)
         (Resolves (str ''$1,000.00''))"
  let ?st = "example_state\<lparr>formData := example_form\<lparr>paymentAmount := Fin 0\<rparr>\<rparr>"
  have v: "\<not> validation_fails (formData ?st)"
    using example_form_valid by (simp add: validation_fails_def)
  have p: "payment ?e = Resolves \<lparr>success = False, message = str ''Declined''\<rparr>"
    by (simp add: example_env_def)
  have n: "\<not> success \<lparr>success = False, message = str ''Declined''\<rparr>" by simp
  have b: "balance ?e = Resolves (str ''$1,000.00'')" by (simp add: example_env_def)
  have c: "balance_check (str ''$1,000.00'') (paymentAmount (formData ?st))"
    using example_check_holds by simp
  have u: "storing_returns ?e (formData ?st) example_world"
    by (simp add: storing_returns_def example_env_def example_world_def)
  have t: "storing_returns ?e (formData ?st) example_world \<and> onClose_throws ?e = None \<and> onSuccess_throws ?e = None"
    using u by (simp add: example_env_def)
  note th = reconciled_failure_takes_success_path[OF v p n b c, of example_mentor example_world]
  note stored = th[THEN conjunct2, THEN conjunct2, THEN conjunct2, THEN conjunct1, rule_format, OF u]
  note quiet = th[THEN conjunct2, THEN conjunct2, THEN conjunct2, THEN conjunct2, rule_format, OF t]
  have l: "length (stored_list (snd (handleSubmit ?e example_mentor (?st, example_world)))) = 1"
    using stored[THEN conjunct1] by (simp add: stored_list_def example_world_def)
  from quiet l show ?thesis by (simp add: example_world_def)
qed

subsection \<open>The payment amount\<close>

text \<open>
  Claim C4 says that for every hourly rate and every supported duration the amount is
  the rate times the duration over 60, rounded to 2 decimal places. In binary64 it can
  be a cent off: the rate below is a binary64 value, the duration is 90; the exact
  product times 100 lies strictly between 3031 and 3031.5, so that its rounding is
  30.31 whatever is done with ties, but the two products of the source round up to
  3031.5 and the amount is 30.32.
\<close>

theorem payment_amount_off_by_a_cent:
  "is_double (5688609279322357 / 281474976710656)
   \<and> paymentAmount (formData (update_payment_amount
        (example_mentor\<lparr>hourlyRate := Fin (5688609279322357 / 281474976710656)\<rparr>)
        (example_state\<lparr>formData := example_form\<lparr>sessionDuration := Fin 90\<rparr>\<rparr>)))
      = round64 (3032 / 100)
   \<and> round_2_decimals (5688609279322357 / 281474976710656 * (90 / 60)) = 3031 / 100
   \<and> 3031 < 5688609279322357 / 281474976710656 * (90 / 60) * (100 :: rat)
   \<and> 5688609279322357 / 281474976710656 * (90 / 60) * (100 :: rat) < 3031 + 1 / 2
   \<and> round64 (3032 / 100) = Fin (4267160646933545 / 140737488355328)
   \<and> round64 (3031 / 100) = Fin (8531506544099983 / 281474976710656)
   \<and> paymentAmount (formData (update_payment_amount
        (example_mentor\<lparr>hourlyRate := Fin (5688609279322357 / 281474976710656)\<rparr>)
        (example_state\<lparr>formData := example_form\<lparr>sessionDuration := Fin 90\<rparr>\<rparr>)))
      \<noteq> round64 (round_2_decimals (5688609279322357 / 281474976710656 * (90 / 60)))"
proof -
  let ?R = "5688609279322357 / 281474976710656 :: rat"
  let ?m = "example_mentor\<lparr>hourlyRate := Fin ?R\<rparr>"
  let ?st = "example_state\<lparr>formData := example_form\<lparr>sessionDuration := Fin 90\<rparr>\<rparr>"
  have d: "is_double ?R" by code_simp
  have h: "round64 (3 / 2) = Fin (3 / 2)" by code_simp
  have x1: "round64 (17065827837967071 / 562949953421312) = Fin (533307119936471 / 17592186044416)"
    by code_simp
  have x2: "round64 (13332677998411775 / 4398046511104) = Fin (6063 / 2)"
    by code_simp
  have c: "round64 (758 / 25) = Fin (4267160646933545 / 140737488355328)" by code_simp
  have s: "round64 (3031 / 100) = Fin (8531506544099983 / 281474976710656)" by code_simp
  have amount: "paymentAmount (formData (update_payment_amount ?m ?st)) = round64 (758 / 25)"
    by (simp add: update_payment_amount_def Let_def h x1 x2)
  have spec: "round_2_decimals (?R * (90 / 60)) = 3031 / 100"
    by code_simp
  have c': "round64 (3032 / 100) = Fin (4267160646933545 / 140737488355328)"
    using c by simp
  have amount': "paymentAmount (formData (update_payment_amount ?m ?st)) = round64 (3032 / 100)"
    using amount by simp
  have lo: "3031 < ?R * (90 / 60) * (100 :: rat)" by simp
  have hi: "?R * (90 / 60) * (100 :: rat) < 3031 + 1 / 2" by simp
  have ne: "paymentAmount (formData (update_payment_amount ?m ?st))
      \<noteq> round64 (round_2_decimals (?R * (90 / 60)))"
    by (simp only: amount' spec c' s) simp
  from d amount' spec lo hi c' s ne show ?thesis by blast
qed

text \<open>
  Claim C4, amended. For a supported duration the amount is the binary64 value of
  the rate times the duration over 60 rounded to 2 decimals whenever the two products of
  the source are exact; they are for every whole-number rate of magnitude up to
  \<open>2\<^sup>4\<^sup>0\<close>, where the amount is the rate times the duration over 60 itself. For every
  rate of magnitude up to \<open>2\<^sup>3\<^sup>0\<close> the amount is the binary64 value of the 2-decimal
  rounding of some value within \<open>2\<^sup>-\<^sup>2\<^sup>1\<close> of the rate times the duration over 60.
\<close>

theorem payment_amount_rounded_to_cents:
  assumes "hourlyRate m = Fin R" "sessionDuration (formData st) = Fin D"
    "D \<in> supported_durations"
  shows "(round64 (R * (D / 60)) = Fin (R * (D / 60))
          \<and> round64 (R * (D / 60) * 100) = Fin (R * (D / 60) * 100)
          \<longrightarrow> paymentAmount (formData (update_payment_amount m st)) =
                round64 (round_2_decimals (R * (D / 60))))
         \<and> ((\<exists>n::int. R = of_int n \<and> \<bar>n\<bar> \<le> 2 ^ 40)
          \<longrightarrow> paymentAmount (formData (update_payment_amount m st)) = Fin (R * (D / 60))
              \<and> round_2_decimals (R * (D / 60)) = R * (D / 60))
         \<and> (\<bar>R\<bar> \<le> 2 ^ 30
          \<longrightarrow> (\<exists>y. \<bar>y - R * (D / 60)\<bar> \<le> 1 / 2 ^ 21
                   \<and> paymentAmount (formData (update_payment_amount m st)) =
                       round64 (round_2_decimals y)))"
proof (intro conjI impI)
  assume "round64 (R * (D / 60)) = Fin (R * (D / 60))
          \<and> round64 (R * (D / 60) * 100) = Fin (R * (D / 60) * 100)"
  then show "paymentAmount (formData (update_payment_amount m st)) =
                round64 (round_2_decimals (R * (D / 60)))"
    using payment_amount_exact_products[OF assms] by blast
next
  assume "\<exists>n::int. R = of_int n \<and> \<bar>n\<bar> \<le> 2 ^ 40"
  then obtain n :: int where n: "R = of_int n" "\<bar>n\<bar> \<le> 2 ^ 40" by blast
  from assms(1) n(1) have r: "hourlyRate m = Fin (of_int n)" by simp
  from payment_amount_whole_rate[OF r assms(2,3) n(2)]
  show "paymentAmount (formData (update_payment_amount m st)) = Fin (R * (D / 60))"
    and "round_2_decimals (R * (D / 60)) = R * (D / 60)"
    by (simp_all add: n(1))
next
  assume "\<bar>R\<bar> \<le> 2 ^ 30"
  then show "\<exists>y. \<bar>y - R * (D / 60)\<bar> \<le> 1 / 2 ^ 21
                   \<and> paymentAmount (formData (update_payment_amount m st)) =
                       round64 (round_2_decimals y)"
    by (rule payment_amount_near[OF assms])
qed

theorem payment_amount_rounded_to_cents_witness:
  "paymentAmount (formData (update_payment_amount example_mentor
      (example_state\<lparr>formData := example_form\<lparr>sessionDuration := Fin 90\<rparr>\<rparr>))) = Fin 150
   \<and> round_2_decimals (100 * (90 / 60)) = 150"
proof -
  let ?st = "example_state\<lparr>formData := example_form\<lparr>sessionDuration := Fin 90\<rparr>\<rparr>"
  have r: "hourlyRate example_mentor = Fin 100" by (simp add: example_mentor_def)
  have d: "sessionDuration (formData ?st) = Fin 90" by simp
  have s: "(90::rat) \<in> supported_durations" by (simp add: supported_durations_def)
  have n: "\<exists>n::int. (100::rat) = of_int n \<and> \<bar>n\<bar> \<le> 2 ^ 40"
    by (rule exI[of _ 100]) simp
  from payment_amount_rounded_to_cents[OF r d s, THEN conjunct2, THEN conjunct1, rule_format, OF n]
  show ?thesis by simp
qed

subsection \<open>Validation, success and failure of a submission\<close>

text \<open>
  Claim C5. When the topic or the goals are empty after trimming, or no time slot is
  selected, a submission is blocked: the validation message is set and notified, the
  submitting flag is back to false, and neither the payment service is called nor the
  stored sessions touched nor the success callback run.
\<close>

theorem validation_blocks_submission:
  assumes "trim (topic (formData st)) = [] \<or> trim (goals (formData st)) = []
           \<or> sessionTime (formData st) = []"
  shows "handleSubmit e m (st, w) =
           (st\<lparr>isSubmitting := False, error := Some required_fields_message\<rparr>,
            w\<lparr>toasts := toasts w @ [validation_toast]\<rparr>)
         \<and> makePaymentFromCart_calls (snd (handleSubmit e m (st, w))) = makePaymentFromCart_calls w
         \<and> getWalletBalance_calls (snd (handleSubmit e m (st, w))) = getWalletBalance_calls w
         \<and> bookedSessions (snd (handleSubmit e m (st, w))) = bookedSessions w
         \<and> onSuccess_calls (snd (handleSubmit e m (st, w))) = onSuccess_calls w"
proof -
  from assms have "validation_fails (formData st)" by (simp add: validation_fails_def)
  then show ?thesis by (simp add: handleSubmit_blocked)
qed

theorem validation_blocks_submission_witness:
  "trim (topic (formData (example_state\<lparr>formData := example_form\<lparr>topic := str ''   ''\<rparr>\<rparr>))) = []
   \<and> toasts (snd (handleSubmit (example_env (Resolves \<lparr>success = True, message = []\<rparr>) (Resolves []))
                example_mentor
                (example_state\<lparr>formData := example_form\<lparr>topic := str ''   ''\<rparr>\<rparr>, example_world)))
       = [validation_toast]
   \<and> makePaymentFromCart_calls (snd (handleSubmit (example_env (Resolves \<lparr>success = True, message = []\<rparr>) (Resolves []))
                example_mentor
                (example_state\<lparr>formData := example_form\<lparr>topic := str ''   ''\<rparr>\<rparr>, example_world)))
       = []"
proof -
  have t: "trim (topic (formData (example_state\<lparr>formData := example_form\<lparr>topic := str ''   ''\<rparr>\<rparr>))) = []"
    by (simp add: trim_def str_def is_white_space_def)
  then have "trim (topic (formData (example_state\<lparr>formData := example_form\<lparr>topic := str ''   ''\<rparr>\<rparr>))) = []
     \<or> trim (goals (formData (example_state\<lparr>formData := example_form\<lparr>topic := str ''   ''\<rparr>\<rparr>))) = []
     \<or> sessionTime (formData (example_state\<lparr>formData := example_form\<lparr>topic := str ''   ''\<rparr>\<rparr>)) = []"
    by (rule disjI1)
  from validation_blocks_submission[OF this] t show ?thesis
    by (simp add: example_world_def)
qed




text \<open>
  Claim C7. On a failed submission (the payment call throws; or it reports a failure
  and the balance test does not hold; or it reports a failure and the balance call
  throws) the stored sessions are left as they were, the error message is set and shown
  in one destructive notification, the payment service was called once and not again,
  the callbacks are not run, and the submitting flag is false again with the form data
  unchanged, so that the user may submit again.
\<close>

theorem failed_submission_stores_nothing:
  assumes valid: "\<not> validation_fails (formData st)"
    and failed:
      "(\<exists>err. payment e = Rejects err \<and> msg = thrown_message err)
       \<or> (\<exists>pr s. payment e = Resolves pr \<and> \<not> success pr \<and> balance e = Resolves s
                  \<and> \<not> balance_check s (paymentAmount (formData st)) \<and> msg = message pr)
       \<or> (\<exists>pr err. payment e = Resolves pr \<and> \<not> success pr \<and> balance e = Rejects err
                  \<and> msg = thrown_message err)"
  shows "bookedSessions (snd (handleSubmit e m (st, w))) = bookedSessions w
         \<and> error (fst (handleSubmit e m (st, w))) = Some msg
         \<and> (\<exists>t. toasts (snd (handleSubmit e m (st, w))) = toasts w @ [t]
                 \<and> description t = msg \<and> variant t = Destructive)
         \<and> makePaymentFromCart_calls (snd (handleSubmit e m (st, w))) =
             makePaymentFromCart_calls w @ [(formData st, m_name m)]
         \<and> isSubmitting (fst (handleSubmit e m (st, w))) = False
         \<and> formData (fst (handleSubmit e m (st, w))) = formData st
         \<and> onClose_calls (snd (handleSubmit e m (st, w))) = onClose_calls w
         \<and> onSuccess_calls (snd (handleSubmit e m (st, w))) = onSuccess_calls w"
proof -
  consider (a) err where "payment e = Rejects err" "msg = thrown_message err"
    | (b) pr s where "payment e = Resolves pr" "\<not> success pr" "balance e = Resolves s"
        "\<not> balance_check s (paymentAmount (formData st))" "msg = message pr"
    | (c) pr err where "payment e = Resolves pr" "\<not> success pr" "balance e = Rejects err"
        "msg = thrown_message err"
    using failed by blast
  then show ?thesis
  proof cases
    case a
    with valid show ?thesis
      by (simp add: handleSubmit_payment_rejects call_toast_def)
  next
    case b
    with valid show ?thesis
      by (simp add: handleSubmit_reported_failure call_toast_def payment_failed_toast_def)
  next
    case c
    with valid show ?thesis
      by (simp add: handleSubmit_balance_rejects call_toast_def)
  qed
qed

theorem failed_submission_stores_nothing_witness:
  "bookedSessions (snd (handleSubmit
      (example_env (Resolves \<lparr>success = False, message = str ''Insufficient funds''\<rparr>)
         (Resolves (str ''$1,000.00'')))
      example_mentor (example_state, example_world))) = No_item
   \<and> error (fst (handleSubmit
      (example_env (Resolves \<lparr>success = False, message = str ''Insufficient funds''\<rparr>)
         (Resolves (str ''$1,000.00'')))
      example_mentor (example_state, example_world))) = Some (str ''Insufficient funds'')
   \<and> isSubmitting (fst (handleSubmit
      (example_env (Resolves \<lparr>success = False, message = str ''Insufficient funds''\<rparr>)
         (Resolves (str ''$1,000.00'')))
      example_mentor (example_state, example_world))) = False
   \<and> bookedSessions (snd (handleSubmit
      (example_env (Rejects (Error_with (str ''Network down''))) (Resolves []))
      example_mentor (example_state, example_world))) = No_item
   \<and> error (fst (handleSubmit
      (example_env (Rejects (Error_with (str ''Network down''))) (Resolves []))
      example_mentor (example_state, example_world))) = Some (str ''Network down'')"
proof -
  let ?e1 = "example_env (Resolves \<lparr>success = False, message = str ''Insufficient funds''\<rparr>)
         (Resolves (str ''$1,000.00''))"
  let ?e2 = "example_env (Rejects (Error_with (str ''Network down''))) (Resolves [])"
  have v: "\<not> validation_fails (formData example_state)"
    using example_form_valid by (simp add: example_state_def)
  have "\<exists>pr s. payment ?e1 = Resolves pr \<and> \<not> success pr \<and> balance ?e1 = Resolves s
                  \<and> \<not> balance_check s (paymentAmount (formData example_state))
                  \<and> str ''Insufficient funds'' = message pr"
    using example_check_fails
    by (simp add: example_env_def example_state_def example_form_def)
  then have f1: "(\<exists>err. payment ?e1 = Rejects err \<and> str ''Insufficient funds'' = thrown_message err)
       \<or> (\<exists>pr s. payment ?e1 = Resolves pr \<and> \<not> success pr \<and> balance ?e1 = Resolves s
                  \<and> \<not> balance_check s (paymentAmount (formData example_state))
                  \<and> str ''Insufficient funds'' = message pr)
       \<or> (\<exists>pr err. payment ?e1 = Resolves pr \<and> \<not> success pr \<and> balance ?e1 = Rejects err
                  \<and> str ''Insufficient funds'' = thrown_message err)"
    by blast
  have "\<exists>err. payment ?e2 = Rejects err \<and> str ''Network down'' = thrown_message err"
    by (simp add: example_env_def thrown_message_def)
  then have f2: "(\<exists>err. payment ?e2 = Rejects err \<and> str ''Network down'' = thrown_message err)
       \<or> (\<exists>pr s. payment ?e2 = Resolves pr \<and> \<not> success pr \<and> balance ?e2 = Resolves s
                  \<and> \<not> balance_check s (paymentAmount (formData example_state))
                  \<and> str ''Network down'' = message pr)
       \<or> (\<exists>pr err. payment ?e2 = Resolves pr \<and> \<not> success pr \<and> balance ?e2 = Rejects err
                  \<and> str ''Network down'' = thrown_message err)"
    by blast
  from failed_submission_stores_nothing[OF v f1, of example_mentor example_world]
       failed_submission_stores_nothing[OF v f2, of example_mentor example_world]
  show ?thesis by (simp add: example_world_def)
qed

text \<open>
  Claim C8. The stored list only ever grows at its end: one event of the component
  (an input, a selection, a date, a submission) leaves the stored list as it was or
  puts one record after it, and after any run of events the list stored before is a
  prefix of the list stored after.
\<close>

theorem stored_sessions_append_only:
  "(stored_list (snd (step m ev (st, w))) = stored_list w
    \<or> (\<exists>r. stored_list (snd (step m ev (st, w))) = stored_list w @ [r]))
   \<and> prefix (stored_list w) (stored_list (snd (run m evs (st, w))))"
  using step_stored_list[of m ev st w] run_stored_list[of "(st, w)" m evs] by simp

subsection \<open>What the fetched balance decides\<close>

text \<open>
  Claim C9 says that, for one payment amount, any two finite fetched balances lead to
  the same branch. In binary64 they need not: for the amount 0.01 the balance
  \<^verbatim>\<open>1000\<close> gives a difference just below the tolerance and the balance \<^verbatim>\<open>0.5\<close> one just
  above it.
\<close>

theorem balance_decides_near_one_cent:
  "parseFloat (replace_non_numeric (str ''1000'')) = Fin 1000
   \<and> parseFloat (replace_non_numeric (str ''0.5'')) = Fin (1 / 2)
   \<and> is_double (5764607523034235 / 576460752303423488)
   \<and> balance_check (str ''1000'') (Fin (5764607523034235 / 576460752303423488))
   \<and> \<not> balance_check (str ''0.5'') (Fin (5764607523034235 / 576460752303423488))
   \<and> error (fst (handleSubmit
         (example_env (Resolves \<lparr>success = False, message = str ''Declined''\<rparr>)
            (Resolves (str ''1000'')))
         example_mentor
         (example_state\<lparr>formData := example_form
            \<lparr>paymentAmount := Fin (5764607523034235 / 576460752303423488)\<rparr>\<rparr>,
          example_world))) = None
   \<and> error (fst (handleSubmit
         (example_env (Resolves \<lparr>success = False, message = str ''Declined''\<rparr>)
            (Resolves (str ''0.5'')))
         example_mentor
         (example_state\<lparr>formData := example_form
            \<lparr>paymentAmount := Fin (5764607523034235 / 576460752303423488)\<rparr>\<rparr>,
          example_world))) = Some (str ''Declined'')"
proof -
  let ?a = "5764607523034235 / 576460752303423488 :: rat"
  let ?st = "example_state\<lparr>formData := example_form\<lparr>paymentAmount := Fin ?a\<rparr>\<rparr>"
  let ?pr = "\<lparr>success = False, message = str ''Declined''\<rparr>"
  have p1: "parseFloat (replace_non_numeric (str ''1000'')) = Fin 1000" by code_simp
  have p2: "parseFloat (replace_non_numeric (str ''0.5'')) = Fin (1 / 2)" by code_simp
  have d: "is_double ?a" by code_simp
  have a1: "round64 (1000 - ?a) = Fin (4398002530638889 / 4398046511104)" by code_simp
  have a2: "round64 (1000 - 4398002530638889 / 4398046511104)
            = Fin (43980465111 / 4398046511104)" by code_simp
  have b1: "round64 (1 / 2 - ?a) = Fin (2206763817411543 / 4503599627370496)" by code_simp
  have b2: "round64 (1 / 2 - 2206763817411543 / 4503599627370496)
            = Fin (45035996273705 / 4503599627370496)" by code_simp
  have c1: "balance_check (str ''1000'') (Fin ?a)"
    unfolding balance_check_def Let_def p1 js_sub.simps a1 a2 tolerance_value by simp
  have c2: "\<not> balance_check (str ''0.5'') (Fin ?a)"
    unfolding balance_check_def Let_def p2 js_sub.simps b1 b2 tolerance_value by simp
  have v: "\<not> validation_fails (formData ?st)"
    using example_form_valid by (simp add: validation_fails_def)
  have n: "\<not> success ?pr" by simp
  have amount: "paymentAmount (formData ?st) = Fin ?a" by simp
  have h1: "error (fst (handleSubmit (example_env (Resolves ?pr) (Resolves (str ''1000'')))
              example_mentor (?st, example_world))) = None"
    using c1
    by (subst handleSubmit_reconciled_returns[OF v _ n, where s = "str ''1000''"])
      (simp_all only: amount,
       simp_all add: example_env_def storing_returns_def example_world_def)
  have h2: "error (fst (handleSubmit (example_env (Resolves ?pr) (Resolves (str ''0.5'')))
              example_mentor (?st, example_world))) = Some (str ''Declined'')"
    using c2
    by (subst handleSubmit_reported_failure[OF v _ n, where s = "str ''0.5''"])
      (simp_all only: amount, simp_all add: example_env_def)
  from p1 p2 d c1 c2 h1 h2 show ?thesis by blast
qed

text \<open>
  Claim C9, amended. For fetched balances of magnitude up to \<open>2\<^sup>4\<^sup>0\<close> and a payment
  amount of magnitude up to 0.009, or from 0.011 to \<open>2\<^sup>4\<^sup>0\<close>, the branch taken does not
  depend on the balance: the test is the test that the amount is below 0.01 in
  magnitude, and two submissions that differ in the fetched balance only end in the
  same state and world.
\<close>

theorem decision_independent_of_balance:
  assumes "parseFloat (replace_non_numeric s1) = Fin b1" "\<bar>b1\<bar> \<le> 2 ^ 40"
    and "parseFloat (replace_non_numeric s2) = Fin b2" "\<bar>b2\<bar> \<le> 2 ^ 40"
    and "\<bar>a\<bar> \<le> 9 / 1000 \<or> (11 / 1000 \<le> \<bar>a\<bar> \<and> \<bar>a\<bar> \<le> 2 ^ 40)"
    and "paymentAmount (formData st) = Fin a"
  shows "balance_check s1 (Fin a) = balance_check s2 (Fin a)
         \<and> balance_check s1 (Fin a) = (\<bar>a\<bar> < 1 / 100)
         \<and> handleSubmit (e\<lparr>balance := Resolves s1\<rparr>) m (st, w) =
            handleSubmit (e\<lparr>balance := Resolves s2\<rparr>) m (st, w)"
proof -
  have c: "balance_check s1 (Fin a) = (\<bar>a\<bar> < 1 / 100)" "balance_check s2 (Fin a) = (\<bar>a\<bar> < 1 / 100)"
    using assms(5) balance_check_false[OF assms(1,2), of a] balance_check_true[OF assms(1,2), of a]
      balance_check_false[OF assms(3,4), of a] balance_check_true[OF assms(3,4), of a]
    by auto
  then have "balance_check s1 (paymentAmount (formData st)) = balance_check s2 (paymentAmount (formData st))"
    by (simp add: assms(6))
  from handleSubmit_balance_irrelevant[OF this] c show ?thesis by simp
qed

theorem decision_independent_of_balance_witness:
  "balance_check (str ''$1,000.00'') (Fin 100) = balance_check (str ''250.75 USD'') (Fin 100)
   \<and> handleSubmit ((example_env (Resolves \<lparr>success = False, message = str ''Declined''\<rparr>)
           (Resolves []))\<lparr>balance := Resolves (str ''$1,000.00'')\<rparr>)
        example_mentor (example_state, example_world)
     = handleSubmit ((example_env (Resolves \<lparr>success = False, message = str ''Declined''\<rparr>)
           (Resolves []))\<lparr>balance := Resolves (str ''250.75 USD'')\<rparr>)
        example_mentor (example_state, example_world)"
proof -
  have p2: "parseFloat (replace_non_numeric (str ''250.75 USD'')) = Fin (1003 / 4)"
    by code_simp
  have b1: "\<bar>1000 :: rat\<bar> \<le> 2 ^ 40" and b2: "\<bar>1003 / 4 :: rat\<bar> \<le> 2 ^ 40" by simp_all
  have a: "\<bar>100 :: rat\<bar> \<le> 9 / 1000 \<or> (11 / 1000 \<le> \<bar>100 :: rat\<bar> \<and> \<bar>100 :: rat\<bar> \<le> 2 ^ 40)"
    by simp
  have f: "paymentAmount (formData example_state) = Fin 100"
    by (simp add: example_state_def example_form_def)
  from decision_independent_of_balance[OF example_parse b1 p2 b2 a f]
  show ?thesis by blast
qed

text \<open>
  Claim C10. When what is left of the fetched balance string has no decimal literal
  at its head, \<^verbatim>\<open>parseFloat\<close> gives \<open>NaN\<close>, the balance test does not hold, and the
  handler sets and shows the message the payment reported; nothing is stored.
\<close>

theorem unparseable_balance_is_failure:
  assumes "\<not> validation_fails (formData st)" "payment e = Resolves pr" "\<not> success pr"
    "balance e = Resolves s" "parseFloat (replace_non_numeric s) = NaN"
  shows "\<not> balance_check s (paymentAmount (formData st))
         \<and> handleSubmit e m (st, w) =
             (st\<lparr>isSubmitting := False, error := Some (message pr)\<rparr>,
              w\<lparr>makePaymentFromCart_calls :=
                   makePaymentFromCart_calls w @ [(formData st, m_name m)],
                 getWalletBalance_calls := getWalletBalance_calls w + 1,
                 toasts := toasts w @ [payment_failed_toast (message pr)]\<rparr>)"
proof -
  have "\<not> balance_check s (paymentAmount (formData st))"
    using assms(5) by (simp add: balance_check_def)
  with assms show ?thesis
    by (simp add: handleSubmit_reported_failure call_toast_def)
qed

theorem unparseable_balance_is_failure_witness:
  "parseFloat (replace_non_numeric (str ''N/A'')) = NaN
   \<and> handleSubmit
      (example_env (Resolves \<lparr>success = False, message = str ''Declined''\<rparr>)
         (Resolves (str ''N/A'')))
      example_mentor (example_state, example_world)
   = (example_state\<lparr>error := Some (str ''Declined'')\<rparr>,
      example_world\<lparr>toasts := [payment_failed_toast (str ''Declined'')],
        makePaymentFromCart_calls := [(example_form, str ''Ada'')],
        getWalletBalance_calls := 1\<rparr>)"
proof -
  let ?e = "example_env (Resolves \<lparr>success = False, message = str ''Declined''\<rparr>)
         (Resolves (str ''N/A''))"
  have v: "\<not> validation_fails (formData example_state)"
    using example_form_valid by (simp add: example_state_def)
  have p: "payment ?e = Resolves \<lparr>success = False, message = str ''Declined''\<rparr>"
    by (simp add: example_env_def)
  have n: "\<not> success \<lparr>success = False, message = str ''Declined''\<rparr>" by simp
  have b: "balance ?e = Resolves (str ''N/A'')" by (simp add: example_env_def)
  have nan: "parseFloat (replace_non_numeric (str ''N/A'')) = NaN" by code_simp
  from unparseable_balance_is_failure[OF v p n b nan, of example_mentor example_world] nan
  show ?thesis
    by (simp add: example_state_def example_world_def example_mentor_def)
qed

end
